theory Spec2Isabelle
  imports Main
begin

section \<open>Effects, exceptions and results\<close>

text \<open>
  The program is a single Python module, \<^verbatim>\<open>main.py\<close>: a Streamlit script that reads seven
  environment variables, connects to a Couchbase cluster, builds a LangChain
  retrieval chain and answers one question. Everything it does is an effect on the
  outside world, so the model records each effect as an event, in program order, and
  every external call takes its answer from a record of collaborators.

  Python exceptions are values. Two classes are told apart because the source does:
  \<^verbatim>\<open>except CouchbaseException\<close> in \<^verbatim>\<open>initialize_cluster\<close> catches the first only,
  \<^verbatim>\<open>except Exception\<close> in \<^verbatim>\<open>main\<close> catches both. The string is what \<^verbatim>\<open>str(e)\<close> gives.
  \<^verbatim>\<open>sys.exit(n)\<close> raises \<^verbatim>\<open>SystemExit\<close>, which is not an \<^verbatim>\<open>Exception\<close>: it is a result
  of its own, passed by every handler of the module.
\<close>

datatype exn = CouchbaseException string | OtherException string

fun exn_str :: "exn \<Rightarrow> string" where
  "exn_str (CouchbaseException s) = s"
| "exn_str (OtherException s) = s"

datatype cluster = Cluster nat

record store_cfg =
  bucket_name :: string
  scope_name :: string
  collection_name :: string
  embedding_key :: string
  text_key :: string
  index_name :: string

record llm_cfg =
  temperature :: int
  model :: string
  streaming :: bool

record document =
  page_content :: string
  metadata :: "(string \<times> string) list"

datatype 'v event =
    LogInfo string
  | LogError string
  | StTitle string
  | StWrite string
  | StError string
  | StTextInput string
  | StSpinner string
  | ClusterNew string string string
  | WaitUntilReady cluster nat
  | EmbeddingsNew string
  | VectorStoreNew cluster store_cfg
  | ChatModelNew llm_cfg
  | EmbedQuery string string
  | VectorSearch cluster store_cfg 'v
  | ChatCompletion llm_cfg string

datatype 'a result = Ok 'a | Raise exn | SysExit nat

type_synonym ('v, 'a) io = "'v event list \<times> 'a result"

definition io_ret :: "'a \<Rightarrow> ('v, 'a) io" where
  "io_ret x = ([], Ok x)"

definition io_raise :: "exn \<Rightarrow> ('v, 'a) io" where
  "io_raise e = ([], Raise e)"

definition sys_exit :: "nat \<Rightarrow> ('v, 'a) io" where
  "sys_exit n = ([], SysExit n)"

definition emit :: "'v event \<Rightarrow> ('v, unit) io" where
  "emit ev = ([ev], Ok ())"

definition io_bind :: "('v, 'a) io \<Rightarrow> ('a \<Rightarrow> ('v, 'b) io) \<Rightarrow> ('v, 'b) io" where
  "io_bind m f =
     (case m of
        (es, Ok x) \<Rightarrow> (case f x of (es', r) \<Rightarrow> (es @ es', r))
      | (es, Raise e) \<Rightarrow> (es, Raise e)
      | (es, SysExit n) \<Rightarrow> (es, SysExit n))"

definition io_seq :: "('v, 'a) io \<Rightarrow> ('v, 'b) io \<Rightarrow> ('v, 'b) io" where
  "io_seq m k = io_bind m (\<lambda>_. k)"

text \<open>An external call: the event is recorded, then the collaborator answers or raises.\<close>

definition call :: "'v event \<Rightarrow> exn + 'a \<Rightarrow> ('v, 'a) io" where
  "call ev r = ([ev], case r of Inl e \<Rightarrow> Raise e | Inr x \<Rightarrow> Ok x)"

definition call_unit :: "'v event \<Rightarrow> exn option \<Rightarrow> ('v, unit) io" where
  "call_unit ev r = ([ev], case r of Some e \<Rightarrow> Raise e | None \<Rightarrow> Ok ())"

text \<open>\<^verbatim>\<open>try: m  except CouchbaseException as e: h e\<close>\<close>

definition catch_CouchbaseException ::
  "('v, 'a) io \<Rightarrow> (exn \<Rightarrow> ('v, 'a) io) \<Rightarrow> ('v, 'a) io" where
  "catch_CouchbaseException m h =
     (case m of
        (es, Raise (CouchbaseException s)) \<Rightarrow>
          (case h (CouchbaseException s) of (es', r) \<Rightarrow> (es @ es', r))
      | _ \<Rightarrow> m)"

text \<open>\<^verbatim>\<open>try: m  except Exception as e: h e\<close>\<close>

definition catch_Exception ::
  "('v, 'a) io \<Rightarrow> (exn \<Rightarrow> ('v, 'a) io) \<Rightarrow> ('v, 'a) io" where
  "catch_Exception m h =
     (case m of
        (es, Raise e) \<Rightarrow> (case h e of (es', r) \<Rightarrow> (es @ es', r))
      | _ \<Rightarrow> m)"

section \<open>The external collaborators\<close>

text \<open>
  The Couchbase SDK, the OpenAI clients and the traceback module are not part of the
  module; what they answer is a parameter of every function below.
  \<^item> \<open>cluster_new\<close>: \<^verbatim>\<open>Cluster(connection_string, ClusterOptions(PasswordAuthenticator(username, password)))\<close>;
  \<^item> \<open>wait_until_ready\<close>: \<^verbatim>\<open>cluster.wait_until_ready(timedelta(seconds=n))\<close>;
  \<^item> \<open>embeddings_new\<close>, \<open>vector_store_new\<close>, \<open>chat_model_new\<close>: the three constructors
    called by \<^verbatim>\<open>build_rag_chain\<close>, each of which may raise;
  \<^item> \<open>embed_query\<close>: the embedding service, by model name and text;
  \<^item> \<open>similarity_search\<close>: the store's ranked answer for a query vector;
  \<^item> \<open>chat_completion\<close>: the completion service, the whole answer text;
  \<^item> \<open>doc_repr\<close>: \<^verbatim>\<open>repr\<close> of a retrieved document;
  \<^item> \<open>format_exc\<close>: \<^verbatim>\<open>traceback.format_exc()\<close> while the exception is handled.
\<close>

record 'v services =
  cluster_new :: "string \<Rightarrow> string \<Rightarrow> string \<Rightarrow> exn + cluster"
  wait_until_ready :: "cluster \<Rightarrow> nat \<Rightarrow> exn option"
  embeddings_new :: "string \<Rightarrow> exn option"
  vector_store_new :: "cluster \<Rightarrow> store_cfg \<Rightarrow> exn option"
  chat_model_new :: "llm_cfg \<Rightarrow> exn option"
  embed_query :: "string \<Rightarrow> string \<Rightarrow> exn + 'v"
  similarity_search :: "cluster \<Rightarrow> store_cfg \<Rightarrow> 'v \<Rightarrow> exn + document list"
  chat_completion :: "llm_cfg \<Rightarrow> string \<Rightarrow> exn + string"
  doc_repr :: "document \<Rightarrow> string"
  format_exc :: "exn \<Rightarrow> string"

section \<open>Configuration: \<^verbatim>\<open>get_env_variable\<close>\<close>

text \<open>
  The process environment is a map from names to values; \<^verbatim>\<open>os.environ.get\<close> is the
  lookup. The test is \<^verbatim>\<open>value is None\<close>: a variable set to the empty string is returned.
\<close>

definition missing_message :: "string \<Rightarrow> string" where
  "missing_message var_name =
     ''Required environment variable '' @ [CHR 0x27] @ var_name @ [CHR 0x27] @ '' is missing.''"

definition get_env_variable :: "(string \<rightharpoonup> string) \<Rightarrow> string \<Rightarrow> ('v, string) io" where
  "get_env_variable env var_name =
     (case env var_name of
        None \<Rightarrow>
          (let error_message = missing_message var_name
           in io_seq (emit (LogError error_message))
             (io_seq (emit (StError error_message))
             (sys_exit 1)))
      | Some v \<Rightarrow> io_ret v)"

section \<open>Store connector: \<^verbatim>\<open>initialize_cluster\<close>\<close>

text \<open>
  One \<^verbatim>\<open>Cluster(...)\<close> call, one \<^verbatim>\<open>wait_until_ready(timedelta(seconds=5))\<close>, inside one
  \<^verbatim>\<open>try\<close>. The handler logs and re-raises with a bare \<^verbatim>\<open>raise\<close>: the same exception
  object. There is no loop around the \<^verbatim>\<open>try\<close>.
\<close>

definition initialize_cluster ::
  "'v services \<Rightarrow> string \<Rightarrow> string \<Rightarrow> string \<Rightarrow> ('v, cluster) io" where
  "initialize_cluster svc connection_string username password =
     catch_CouchbaseException
       (io_bind (call (ClusterNew connection_string username password)
                      (cluster_new svc connection_string username password)) (\<lambda>cluster.
        io_seq (call_unit (WaitUntilReady cluster 5) (wait_until_ready svc cluster 5))
       (io_seq (emit (LogInfo ''Successfully connected to Couchbase cluster.''))
       (io_ret cluster))))
       (\<lambda>e. io_seq (emit (LogError (''Error connecting to Couchbase cluster: '' @ exn_str e)))
                   (io_raise e))"

section \<open>Prompt template\<close>

text \<open>
  \<^verbatim>\<open>ChatPromptTemplate.from_template(template)\<close> formats with Python's \<^verbatim>\<open>str.format\<close>
  rules. \<open>vformat\<close> is the part of those rules a template of literal text, doubled
  braces and plain named fields needs: the second argument is the field name read so
  far (\<open>None\<close> outside a field). A substituted value is copied as it is and never
  scanned again. A field with no value is a \<^verbatim>\<open>KeyError\<close>, an unbalanced brace a
  \<^verbatim>\<open>ValueError\<close>.
\<close>

fun vformat :: "(string \<rightharpoonup> string) \<Rightarrow> string option \<Rightarrow> string \<Rightarrow> exn + string" where
  "vformat kw None [] = Inr []"
| "vformat kw (Some f) [] =
     Inl (OtherException ''ValueError: expected '}' before end of string'')"
| "vformat kw None (c # cs) =
     (if c = CHR ''{'' then
        (case cs of
           [] \<Rightarrow> Inl (OtherException ''ValueError: Single { encountered in format string'')
         | d # ds \<Rightarrow>
             if d = CHR ''{'' then map_sum id ((#) c) (vformat kw None ds)
             else vformat kw (Some []) cs)
      else if c = CHR ''}'' then
        (case cs of
           [] \<Rightarrow> Inl (OtherException ''ValueError: Single } encountered in format string'')
         | d # ds \<Rightarrow>
             if d = CHR ''}'' then map_sum id ((#) c) (vformat kw None ds)
             else Inl (OtherException ''ValueError: Single } encountered in format string''))
      else map_sum id ((#) c) (vformat kw None cs))"
| "vformat kw (Some f) (c # cs) =
     (if c = CHR ''}'' then
        (case kw f of
           None \<Rightarrow> Inl (OtherException (''KeyError: '' @ f))
         | Some v \<Rightarrow> map_sum id ((@) v) (vformat kw None cs))
      else vformat kw (Some (f @ [c])) cs)"

text \<open>
  Python's \<^verbatim>\<open>str\<close> of a list: the \<^verbatim>\<open>repr\<close> of each element, separated by a comma and a
  space, in square brackets. The retriever's answer is a Python list of documents, and
  the prompt template receives that list itself as the value of \<^verbatim>\<open>context\<close>.
\<close>

fun join_comma :: "string list \<Rightarrow> string" where
  "join_comma [] = []"
| "join_comma [x] = x"
| "join_comma (x # y # ys) = x @ '', '' @ join_comma (y # ys)"

definition str_list :: "('a \<Rightarrow> string) \<Rightarrow> 'a list \<Rightarrow> string" where
  "str_list repr xs = ''['' @ join_comma (map repr xs) @ '']''"

section \<open>The chain: \<^verbatim>\<open>build_rag_chain\<close>\<close>

text \<open>
  \<^verbatim>\<open>build_rag_chain\<close> returns \<^verbatim>\<open>chain.invoke\<close>. The model returns the chain as a record of
  what the closure holds, and \<open>rag_invoke\<close> is its \<^verbatim>\<open>invoke\<close>.
\<close>

record rag_chain =
  chain_cluster :: cluster
  chain_store :: store_cfg
  chain_embeddings :: string
  chain_template :: string
  chain_llm :: llm_cfg

definition template :: string where
  "template =
     ''You are a helpful bot. If you cannot answer based on the context provided, '' @
     ''respond with a generic answer. Answer the question as truthfully as possible '' @
     ''using the context below:\<newline>\<newline>{context}\<newline>\<newline>Question: {question}''"

definition build_rag_chain ::
  "'v services \<Rightarrow> cluster \<Rightarrow> string \<Rightarrow> string \<Rightarrow> string \<Rightarrow> string \<Rightarrow> ('v, rag_chain) io" where
  "build_rag_chain svc cluster bucket scope coll search_index =
     (let embeddings = ''text-embedding-3-small'';
          vector_store = \<lparr>bucket_name = bucket, scope_name = scope, collection_name = coll,
                          embedding_key = ''embedding'', text_key = ''review'',
                          index_name = search_index\<rparr>;
          llm = \<lparr>temperature = 0, model = ''gpt-4-1106-preview'', streaming = True\<rparr>
      in io_seq (call_unit (EmbeddingsNew embeddings) (embeddings_new svc embeddings))
        (io_seq (call_unit (VectorStoreNew cluster vector_store)
                           (vector_store_new svc cluster vector_store))
        (io_seq (call_unit (ChatModelNew llm) (chat_model_new svc llm))
        (io_ret \<lparr>chain_cluster = cluster, chain_store = vector_store,
                  chain_embeddings = embeddings, chain_template = template,
                  chain_llm = llm\<rparr>))))"

text \<open>
  \<^verbatim>\<open>vector_store.as_retriever()\<close>: the query text is embedded, then the store is searched
  with the vector; the list the store answers is the retriever's answer.
\<close>

definition retriever_invoke :: "'v services \<Rightarrow> rag_chain \<Rightarrow> string \<Rightarrow> ('v, document list) io" where
  "retriever_invoke svc chain query =
     io_bind (call (EmbedQuery (chain_embeddings chain) query)
                   (embed_query svc (chain_embeddings chain) query)) (\<lambda>v.
     call (VectorSearch (chain_cluster chain) (chain_store chain) v)
          (similarity_search svc (chain_cluster chain) (chain_store chain) v))"

text \<open>\<^verbatim>\<open>prompt\<close>: the template formatted with the two values of the input dictionary.\<close>

definition prompt_invoke ::
  "'v services \<Rightarrow> rag_chain \<Rightarrow> document list \<Rightarrow> string \<Rightarrow> ('v, string) io" where
  "prompt_invoke svc chain context question =
     (case vformat [''context'' \<mapsto> str_list (doc_repr svc) context, ''question'' \<mapsto> question]
                   None (chain_template chain) of
        Inl e \<Rightarrow> io_raise e
      | Inr p \<Rightarrow> io_ret p)"

text \<open>
  \<^verbatim>\<open>{"context": retriever, "question": RunnablePassthrough()} | prompt | llm | StrOutputParser()\<close>:
  each step's answer is the next step's input, and an exception of a step ends the call.
\<close>

definition rag_invoke :: "'v services \<Rightarrow> rag_chain \<Rightarrow> string \<Rightarrow> ('v, string) io" where
  "rag_invoke svc chain question =
     io_bind (retriever_invoke svc chain question) (\<lambda>context.
     io_bind (prompt_invoke svc chain context question) (\<lambda>p.
     io_bind (call (ChatCompletion (chain_llm chain) p)
                   (chat_completion svc (chain_llm chain) p)) (\<lambda>answer.
     io_ret answer)))"

section \<open>The script: \<^verbatim>\<open>main\<close>\<close>

text \<open>
  \<open>main_body\<close> is the suite of the \<^verbatim>\<open>try\<close> statement of \<^verbatim>\<open>main\<close> (lines 150 to 162),
  \<open>main_handler\<close> the suite of its \<^verbatim>\<open>except Exception as e\<close> (lines 165 to 168),
  \<open>main_try\<close> the statement and \<open>main\<close> the whole function. \<open>typed\<close> is what
  \<^verbatim>\<open>st.text_input\<close> returns: the text in the input box, the empty string when the
  operator typed nothing. \<^verbatim>\<open>if question:\<close> is Python's test for a non-empty string.
\<close>

definition main_body ::
  "'v services \<Rightarrow> string \<Rightarrow> string \<Rightarrow> string \<Rightarrow> string \<Rightarrow> string \<Rightarrow> string \<Rightarrow> string \<Rightarrow>
   string \<Rightarrow> ('v, unit) io" where
  "main_body svc couchbase_connection_string db_username db_password bucket scope coll
             search_index typed =
     io_bind (initialize_cluster svc couchbase_connection_string db_username db_password)
       (\<lambda>cluster.
     io_bind (build_rag_chain svc cluster bucket scope coll search_index) (\<lambda>chain.
     io_bind (io_seq (emit (StTextInput ''Enter your question about hotels:''))
                     (io_ret typed)) (\<lambda>question.
     if question \<noteq> [] then
       io_seq (emit (StSpinner ''Processing your query...''))
      (io_bind (rag_invoke svc chain question) (\<lambda>response.
       io_seq (emit (StWrite ''Response:''))
      (io_seq (emit (StWrite response))
      (emit (LogInfo ''Query processed successfully.'')))))
     else io_ret ())))"

definition main_handler :: "'v services \<Rightarrow> exn \<Rightarrow> ('v, unit) io" where
  "main_handler svc e =
     io_seq (emit (StError ''An error occurred while processing your request.''))
    (io_seq (emit (StError (format_exc svc e)))
    (emit (LogError (''Exception occurred: '' @ exn_str e))))"

definition main_try ::
  "'v services \<Rightarrow> string \<Rightarrow> string \<Rightarrow> string \<Rightarrow> string \<Rightarrow> string \<Rightarrow> string \<Rightarrow> string \<Rightarrow>
   string \<Rightarrow> ('v, unit) io" where
  "main_try svc couchbase_connection_string db_username db_password bucket scope coll
            search_index typed =
     catch_Exception
       (main_body svc couchbase_connection_string db_username db_password bucket scope coll
                  search_index typed)
       (main_handler svc)"

definition main :: "'v services \<Rightarrow> (string \<rightharpoonup> string) \<Rightarrow> string \<Rightarrow> ('v, unit) io" where
  "main svc env typed =
     io_seq (emit (StTitle ''Hotel Recommendation System''))
    (io_seq (emit (StWrite
        ''Ask a question about hotels and get recommendations based on context.''))
    (io_bind (get_env_variable env ''COUCHBASE_CONNECTION_STRING'') (\<lambda>cs.
     io_bind (get_env_variable env ''COUCHBASE_USERNAME'') (\<lambda>db_username.
     io_bind (get_env_variable env ''COUCHBASE_PASSWORD'') (\<lambda>db_password.
     io_bind (get_env_variable env ''COUCHBASE_BUCKET'') (\<lambda>bucket.
     io_bind (get_env_variable env ''COUCHBASE_SCOPE'') (\<lambda>scope.
     io_bind (get_env_variable env ''COUCHBASE_COLLECTION'') (\<lambda>coll.
     io_bind (get_env_variable env ''COUCHBASE_SEARCH_INDEX'') (\<lambda>search_index.
     main_try svc cs db_username db_password bucket scope coll search_index typed)))))))))"

definition required_keys :: "string list" where
  "required_keys =
     [''COUCHBASE_CONNECTION_STRING'', ''COUCHBASE_USERNAME'', ''COUCHBASE_PASSWORD'',
      ''COUCHBASE_BUCKET'', ''COUCHBASE_SCOPE'', ''COUCHBASE_COLLECTION'',
      ''COUCHBASE_SEARCH_INDEX'']"

text \<open>
  \<^verbatim>\<open>main\<close> has no loop and reads the input box once: it answers at most one question.
  A process that answers several questions executes \<^verbatim>\<open>main\<close> once for each
  interaction (Streamlit runs the script again from the top each time the operator
  submits the input box). \<open>session\<close> is that sequence of executions over one process
  environment, each with what the input box holds and what the collaborators answer at
  that time; \<^verbatim>\<open>sys.exit\<close> ends it. Nothing but the environment is shared between two
  executions: \<^verbatim>\<open>cluster\<close> and the chain are local variables of \<^verbatim>\<open>main\<close>.
\<close>

fun session :: "(string \<rightharpoonup> string) \<Rightarrow> ('v services \<times> string) list \<Rightarrow> ('v, unit) io" where
  "session env [] = io_ret ()"
| "session env ((svc, typed) # rest) = io_seq (main svc env typed) (session env rest)"

section \<open>Classes of events\<close>

fun is_service_call :: "'v event \<Rightarrow> bool" where
  "is_service_call (ClusterNew a u p) = True"
| "is_service_call (WaitUntilReady c n) = True"
| "is_service_call (EmbeddingsNew m) = True"
| "is_service_call (VectorStoreNew c s) = True"
| "is_service_call (ChatModelNew l) = True"
| "is_service_call (EmbedQuery m t) = True"
| "is_service_call (VectorSearch c s v) = True"
| "is_service_call (ChatCompletion l p) = True"
| "is_service_call _ = False"

fun is_connect :: "'v event \<Rightarrow> bool" where
  "is_connect (ClusterNew a u p) = True"
| "is_connect _ = False"

fun is_wait :: "'v event \<Rightarrow> bool" where
  "is_wait (WaitUntilReady c n) = True"
| "is_wait _ = False"

fun is_pipeline_call :: "'v event \<Rightarrow> bool" where
  "is_pipeline_call (EmbedQuery m t) = True"
| "is_pipeline_call (VectorSearch c s v) = True"
| "is_pipeline_call (ChatCompletion l p) = True"
| "is_pipeline_call _ = False"

fun is_display :: "'v event \<Rightarrow> bool" where
  "is_display (StWrite s) = True"
| "is_display _ = False"

section \<open>The template as the specification gives it\<close>

text \<open>
  Section 4.5 of the specification: the fixed instruction text, a blank line, the
  context block, a blank line, \<^verbatim>\<open>Question: \<close> and the question. The specification prints
  the instruction text wrapped over three lines; the source writes it as one line with
  a single space at each of the two breaks, and that is the text taken here.
\<close>

definition spec_assemble :: "string \<Rightarrow> string \<Rightarrow> string" where
  "spec_assemble context_block question =
     ''You are a helpful bot. If you cannot answer based on the context provided, '' @
     ''respond with a generic answer. Answer the question as truthfully as possible '' @
     ''using the context below:\<newline>\<newline>'' @ context_block @
     ''\<newline>\<newline>Question: '' @ question"

section \<open>Concrete collaborators and environments\<close>

text \<open>
  A store that holds one review and services that answer; the same with a completion
  service that fails; the same with a cluster that does not become ready in time.
\<close>

definition demo_svc :: "nat services" where
  "demo_svc =
     \<lparr>cluster_new = (\<lambda>a u p. Inr (Cluster 7)),
      wait_until_ready = (\<lambda>c n. None),
      embeddings_new = (\<lambda>m. None),
      vector_store_new = (\<lambda>c s. None),
      chat_model_new = (\<lambda>l. None),
      embed_query = (\<lambda>m t. Inr (length t)),
      similarity_search = (\<lambda>c s v.
        Inr [\<lparr>page_content = ''Great ocean view, friendly staff'', metadata = []\<rparr>]),
      chat_completion = (\<lambda>l p. Inr ''Guests praise the view.''),
      doc_repr = (\<lambda>d. ''Document(page_content='' @ [CHR 0x27] @ page_content d @ [CHR 0x27] @ '')''),
      format_exc = (\<lambda>e. ''Traceback (most recent call last): '' @ exn_str e)\<rparr>"

definition demo_svc_llm_down :: "nat services" where
  "demo_svc_llm_down =
     demo_svc\<lparr>chat_completion := (\<lambda>l p. Inl (OtherException ''RateLimitError''))\<rparr>"

definition demo_svc_store_down :: "nat services" where
  "demo_svc_store_down =
     demo_svc\<lparr>cluster_new := (\<lambda>a u p. Inr (Cluster 7)),
              wait_until_ready := (\<lambda>c n. Some (CouchbaseException ''UnAmbiguousTimeoutException''))\<rparr>"

text \<open>
  Three more: a store that cannot be reached, so that the constructor of the handle
  raises; a vector store constructor that refuses an empty bucket name; a store that
  answers three reviews, not in alphabetical order and one of them twice.
\<close>

definition demo_svc_unreachable :: "nat services" where
  "demo_svc_unreachable =
     demo_svc\<lparr>cluster_new :=
       (\<lambda>a u p. Inl (CouchbaseException ''UnAmbiguousTimeoutException''))\<rparr>"


definition demo_svc_three :: "nat services" where
  "demo_svc_three =
     demo_svc\<lparr>similarity_search := (\<lambda>c s v.
       Inr [\<lparr>page_content = ''Noisy at night'', metadata = []\<rparr>,
            \<lparr>page_content = ''Great ocean view, friendly staff'', metadata = []\<rparr>,
            \<lparr>page_content = ''Noisy at night'', metadata = []\<rparr>])\<rparr>"

definition demo_env :: "string \<rightharpoonup> string" where
  "demo_env =
     [''COUCHBASE_CONNECTION_STRING'' \<mapsto> ''couchbase://localhost'',
      ''COUCHBASE_USERNAME'' \<mapsto> ''admin'',
      ''COUCHBASE_PASSWORD'' \<mapsto> ''secret'',
      ''COUCHBASE_BUCKET'' \<mapsto> ''travel'',
      ''COUCHBASE_SCOPE'' \<mapsto> ''inventory'',
      ''COUCHBASE_COLLECTION'' \<mapsto> ''hotel'',
      ''COUCHBASE_SEARCH_INDEX'' \<mapsto> ''reviews'']"

definition demo_chain :: rag_chain where
  "demo_chain =
     \<lparr>chain_cluster = Cluster 7,
      chain_store = \<lparr>bucket_name = ''travel'', scope_name = ''inventory'',
                     collection_name = ''hotel'', embedding_key = ''embedding'',
                     text_key = ''review'', index_name = ''reviews''\<rparr>,
      chain_embeddings = ''text-embedding-3-small'',
      chain_template = template,
      chain_llm = \<lparr>temperature = 0, model = ''gpt-4-1106-preview'', streaming = True\<rparr>\<rparr>"

section \<open>Unfolding the effects\<close>

lemmas io_defs = io_ret_def io_raise_def sys_exit_def emit_def io_bind_def io_seq_def
  call_def call_unit_def catch_CouchbaseException_def catch_Exception_def

lemma vformat_template:
  "vformat [''context'' \<mapsto> c, ''question'' \<mapsto> q] None template = Inr (spec_assemble c q)"
  by (simp add: template_def spec_assemble_def)

lemma prompt_invoke_template:
  "chain_template chain = template \<Longrightarrow>
   prompt_invoke svc chain docs q = ([], Ok (spec_assemble (str_list (doc_repr svc) docs) q))"
  by (simp add: prompt_invoke_def vformat_template io_ret_def)

lemma initialize_cluster_eq:
  "initialize_cluster svc a u p =
     (case cluster_new svc a u p of
        Inl e \<Rightarrow>
          (ClusterNew a u p #
             (case e of CouchbaseException s \<Rightarrow>
                  [LogError (''Error connecting to Couchbase cluster: '' @ s)]
              | OtherException s \<Rightarrow> []), Raise e)
      | Inr c \<Rightarrow>
          (case wait_until_ready svc c 5 of
             Some e \<Rightarrow>
               ([ClusterNew a u p, WaitUntilReady c 5] @
                  (case e of CouchbaseException s \<Rightarrow>
                       [LogError (''Error connecting to Couchbase cluster: '' @ s)]
                   | OtherException s \<Rightarrow> []), Raise e)
           | None \<Rightarrow>
               ([ClusterNew a u p, WaitUntilReady c 5,
                 LogInfo ''Successfully connected to Couchbase cluster.''], Ok c)))"
  by (simp add: initialize_cluster_def io_defs split: sum.splits option.splits exn.splits)

lemma initialize_cluster_no_exit: "initialize_cluster svc a u p \<noteq> (es, SysExit n)"
  by (simp add: initialize_cluster_eq split: sum.splits option.splits)

lemma build_rag_chain_Ok:
  "snd (build_rag_chain svc cl b s c i) = Ok chain \<Longrightarrow>
     chain = \<lparr>chain_cluster = cl,
              chain_store = \<lparr>bucket_name = b, scope_name = s, collection_name = c,
                 embedding_key = ''embedding'', text_key = ''review'', index_name = i\<rparr>,
              chain_embeddings = ''text-embedding-3-small'', chain_template = template,
              chain_llm = \<lparr>temperature = 0, model = ''gpt-4-1106-preview'',
                 streaming = True\<rparr>\<rparr>"
  by (auto simp: build_rag_chain_def io_defs Let_def split: option.splits)

lemma build_rag_chain_no_exit: "build_rag_chain svc cl b s c i \<noteq> (es, SysExit n)"
  by (auto simp: build_rag_chain_def io_defs Let_def split: option.splits)

lemma rag_invoke_eq:
  "chain_template chain = template \<Longrightarrow>
   rag_invoke svc chain q =
     (case embed_query svc (chain_embeddings chain) q of
        Inl e \<Rightarrow> ([EmbedQuery (chain_embeddings chain) q], Raise e)
      | Inr v \<Rightarrow>
          (case similarity_search svc (chain_cluster chain) (chain_store chain) v of
             Inl e \<Rightarrow> ([EmbedQuery (chain_embeddings chain) q,
                        VectorSearch (chain_cluster chain) (chain_store chain) v], Raise e)
           | Inr docs \<Rightarrow>
               ([EmbedQuery (chain_embeddings chain) q,
                 VectorSearch (chain_cluster chain) (chain_store chain) v,
                 ChatCompletion (chain_llm chain)
                   (spec_assemble (str_list (doc_repr svc) docs) q)],
                case chat_completion svc (chain_llm chain)
                       (spec_assemble (str_list (doc_repr svc) docs) q) of
                  Inl e \<Rightarrow> Raise e | Inr a \<Rightarrow> Ok a)))"
  by (simp add: rag_invoke_def retriever_invoke_def prompt_invoke_template io_defs
           split: sum.splits)

lemma rag_invoke_no_exit: "rag_invoke svc chain q \<noteq> (es, SysExit n)"
  by (auto simp: rag_invoke_def retriever_invoke_def prompt_invoke_def io_defs
           split: sum.splits prod.splits result.splits)

lemma main_try_returns: "snd (main_try svc cs u p b s c i typed) = Ok ()"
  unfolding main_try_def main_body_def main_handler_def
  by (auto simp: io_defs initialize_cluster_no_exit build_rag_chain_no_exit
                 rag_invoke_no_exit
           split: prod.splits result.splits)

lemma main_cases:
  "(\<exists>k \<in> set required_keys. env k = None \<and>
      main svc env typed =
        ([StTitle ''Hotel Recommendation System'',
          StWrite ''Ask a question about hotels and get recommendations based on context.'',
          LogError (missing_message k), StError (missing_message k)], SysExit 1))
   \<or> (\<exists>cs u p b s c i.
        env ''COUCHBASE_CONNECTION_STRING'' = Some cs \<and> env ''COUCHBASE_USERNAME'' = Some u \<and>
        env ''COUCHBASE_PASSWORD'' = Some p \<and> env ''COUCHBASE_BUCKET'' = Some b \<and>
        env ''COUCHBASE_SCOPE'' = Some s \<and> env ''COUCHBASE_COLLECTION'' = Some c \<and>
        env ''COUCHBASE_SEARCH_INDEX'' = Some i \<and>
        main svc env typed =
          ([StTitle ''Hotel Recommendation System'',
            StWrite ''Ask a question about hotels and get recommendations based on context.'']
           @ fst (main_try svc cs u p b s c i typed), snd (main_try svc cs u p b s c i typed)))"
  unfolding main_def get_env_variable_def required_keys_def
  by (auto simp: io_defs Let_def split: option.splits prod.splits result.splits)

lemma build_rag_chain_eq:
  "build_rag_chain svc cl b s c i =
     (let st = \<lparr>bucket_name = b, scope_name = s, collection_name = c,
                 embedding_key = ''embedding'', text_key = ''review'', index_name = i\<rparr>;
          llm = \<lparr>temperature = 0, model = ''gpt-4-1106-preview'', streaming = True\<rparr>
      in case embeddings_new svc ''text-embedding-3-small'' of
           Some e \<Rightarrow> ([EmbeddingsNew ''text-embedding-3-small''], Raise e)
         | None \<Rightarrow>
             (case vector_store_new svc cl st of
                Some e \<Rightarrow> ([EmbeddingsNew ''text-embedding-3-small'', VectorStoreNew cl st],
                           Raise e)
              | None \<Rightarrow>
                  ([EmbeddingsNew ''text-embedding-3-small'', VectorStoreNew cl st,
                    ChatModelNew llm],
                   case chat_model_new svc llm of
                     Some e \<Rightarrow> Raise e
                   | None \<Rightarrow> Ok \<lparr>chain_cluster = cl, chain_store = st,
                          chain_embeddings = ''text-embedding-3-small'',
                          chain_template = template, chain_llm = llm\<rparr>)))"
  by (simp add: build_rag_chain_def io_defs Let_def split: option.splits)

lemma io_bind_fst:
  "fst (io_bind m f) = fst m @ (case snd m of Ok x \<Rightarrow> fst (f x) | _ \<Rightarrow> [])"
  by (simp add: io_bind_def split: prod.splits result.splits)

lemma io_bind_snd:
  "snd (io_bind m f) =
     (case snd m of Ok x \<Rightarrow> snd (f x) | Raise e \<Rightarrow> Raise e | SysExit n \<Rightarrow> SysExit n)"
  by (simp add: io_bind_def split: prod.splits result.splits)

lemma main_body_fst:
  "fst (main_body svc cs u p b s c i typed) =
     fst (initialize_cluster svc cs u p) @
     (case snd (initialize_cluster svc cs u p) of
        Ok cl \<Rightarrow>
          fst (build_rag_chain svc cl b s c i) @
          (case snd (build_rag_chain svc cl b s c i) of
             Ok chain \<Rightarrow>
               StTextInput ''Enter your question about hotels:'' #
               (if typed \<noteq> [] then
                  StSpinner ''Processing your query...'' #
                  fst (rag_invoke svc chain typed) @
                  (case snd (rag_invoke svc chain typed) of
                     Ok response \<Rightarrow>
                       [StWrite ''Response:'', StWrite response,
                        LogInfo ''Query processed successfully.'']
                   | _ \<Rightarrow> [])
                else [])
           | _ \<Rightarrow> [])
      | _ \<Rightarrow> [])"
  by (simp add: main_body_def io_bind_fst io_bind_snd io_seq_def emit_def io_ret_def
           split: result.splits)

lemma main_body_snd:
  "snd (main_body svc cs u p b s c i typed) =
     (case snd (initialize_cluster svc cs u p) of
        Ok cl \<Rightarrow>
          (case snd (build_rag_chain svc cl b s c i) of
             Ok chain \<Rightarrow>
               (if typed \<noteq> [] then
                  (case snd (rag_invoke svc chain typed) of
                     Ok response \<Rightarrow> Ok ()
                   | Raise e \<Rightarrow> Raise e
                   | SysExit n \<Rightarrow> SysExit n)
                else Ok ())
           | Raise e \<Rightarrow> Raise e
           | SysExit n \<Rightarrow> SysExit n)
      | Raise e \<Rightarrow> Raise e
      | SysExit n \<Rightarrow> SysExit n)"
  by (simp add: main_body_def io_bind_fst io_bind_snd io_seq_def emit_def io_ret_def
           split: result.splits)

lemma main_try_eq:
  "main_try svc cs u p b s c i typed =
     (case snd (main_body svc cs u p b s c i typed) of
        Raise e \<Rightarrow>
          (fst (main_body svc cs u p b s c i typed) @
             [StError ''An error occurred while processing your request.'',
              StError (format_exc svc e),
              LogError (''Exception occurred: '' @ exn_str e)], Ok ())
      | _ \<Rightarrow> main_body svc cs u p b s c i typed)"
  by (simp add: main_try_def main_handler_def io_defs split: prod.splits result.splits)

lemma required_keys_present:
  "(\<forall>k \<in> set required_keys. env k \<noteq> None) \<longleftrightarrow>
   (\<exists>cs u p b s c i.
        env ''COUCHBASE_CONNECTION_STRING'' = Some cs \<and> env ''COUCHBASE_USERNAME'' = Some u \<and>
        env ''COUCHBASE_PASSWORD'' = Some p \<and> env ''COUCHBASE_BUCKET'' = Some b \<and>
        env ''COUCHBASE_SCOPE'' = Some s \<and> env ''COUCHBASE_COLLECTION'' = Some c \<and>
        env ''COUCHBASE_SEARCH_INDEX'' = Some i)"
  by (simp add: required_keys_def)

lemma main_ok:
  "env ''COUCHBASE_CONNECTION_STRING'' = Some cs \<Longrightarrow> env ''COUCHBASE_USERNAME'' = Some u \<Longrightarrow>
   env ''COUCHBASE_PASSWORD'' = Some p \<Longrightarrow> env ''COUCHBASE_BUCKET'' = Some b \<Longrightarrow>
   env ''COUCHBASE_SCOPE'' = Some s \<Longrightarrow> env ''COUCHBASE_COLLECTION'' = Some c \<Longrightarrow>
   env ''COUCHBASE_SEARCH_INDEX'' = Some i \<Longrightarrow>
   main svc env typed =
     ([StTitle ''Hotel Recommendation System'',
       StWrite ''Ask a question about hotels and get recommendations based on context.'']
      @ fst (main_try svc cs u p b s c i typed), Ok ())"
  using main_try_returns [of svc cs u p b s c i typed]
  by (auto simp: main_def get_env_variable_def io_defs split: prod.splits)

lemma initialize_cluster_connects: 
  "filter is_connect (fst (initialize_cluster svc cs u p)) = [ClusterNew cs u p]"
  by (simp add: initialize_cluster_eq split: sum.splits option.splits exn.splits)

lemma initialize_cluster_quiet:
  "ev \<in> set (fst (initialize_cluster svc cs u p)) \<Longrightarrow> \<not> is_display ev \<and> \<not> is_pipeline_call ev"
  by (auto simp: initialize_cluster_eq split: sum.splits option.splits exn.splits)

lemma build_rag_chain_quiet:
  "ev \<in> set (fst (build_rag_chain svc cl b s c i)) \<Longrightarrow>
     \<not> is_display ev \<and> \<not> is_pipeline_call ev \<and> \<not> is_connect ev"
  by (auto simp: build_rag_chain_eq Let_def split: option.splits)

lemma rag_invoke_quiet:
  "ev \<in> set (fst (rag_invoke svc chain q)) \<Longrightarrow> \<not> is_display ev \<and> \<not> is_connect ev"
  by (auto simp: rag_invoke_def retriever_invoke_def prompt_invoke_def io_bind_fst io_bind_snd
        call_def io_ret_def io_raise_def split: sum.splits result.splits)

lemma filter_none: "(\<And>ev. ev \<in> set es \<Longrightarrow> \<not> P ev) \<Longrightarrow> filter P es = []"
  by (induction es) auto

lemma main_body_connects:
  "filter is_connect (fst (main_body svc cs u p b s c i typed)) = [ClusterNew cs u p]"
  by (simp add: main_body_fst initialize_cluster_connects
        filter_none [of _ is_connect] build_rag_chain_quiet rag_invoke_quiet
        split: result.splits)

lemma main_body_no_display_on_raise:
  "snd (main_body svc cs u p b s c i typed) = Raise e \<Longrightarrow>
   ev \<in> set (fst (main_body svc cs u p b s c i typed)) \<Longrightarrow> \<not> is_display ev"
  by (auto simp: main_body_fst main_body_snd
        dest: initialize_cluster_quiet build_rag_chain_quiet rag_invoke_quiet
        split: result.splits if_splits)

lemma main_body_empty_question:
  "ev \<in> set (fst (main_body svc cs u p b s c i [])) \<Longrightarrow>
     \<not> is_pipeline_call ev \<and> \<not> is_display ev"
  by (auto simp: main_body_fst 
        dest: initialize_cluster_quiet build_rag_chain_quiet
        split: result.splits if_splits)

lemmas run_simps = main_try_eq main_body_fst main_body_snd initialize_cluster_eq
  build_rag_chain_eq rag_invoke_eq Let_def

lemma main_try_fst:
  "fst (main_try svc cs u p b s c i typed) =
     fst (main_body svc cs u p b s c i typed) @
     (case snd (main_body svc cs u p b s c i typed) of
        Raise e \<Rightarrow> [StError ''An error occurred while processing your request.'',
                    StError (format_exc svc e),
                    LogError (''Exception occurred: '' @ exn_str e)]
      | _ \<Rightarrow> [])"
  by (simp add: main_try_eq split: result.splits)

lemma initialize_cluster_head:
  "\<exists>es. fst (initialize_cluster svc cs u p) = ClusterNew cs u p # es"
  by (simp add: initialize_cluster_eq split: sum.splits option.splits exn.splits)

lemma main_body_head:
  "\<exists>es. fst (main_body svc cs u p b s c i typed) = ClusterNew cs u p # es"
  using initialize_cluster_head [of svc cs u p] by (auto simp: main_body_fst)

lemma main_try_connects:
  "filter is_connect (fst (main_try svc cs u p b s c i typed)) = [ClusterNew cs u p]"
  by (simp add: main_try_fst main_body_connects split: result.splits)

lemma main_connects:
  assumes "\<forall>k \<in> set required_keys. env k \<noteq> None"
  shows "\<exists>cs u p. env ''COUCHBASE_CONNECTION_STRING'' = Some cs \<and>
           env ''COUCHBASE_USERNAME'' = Some u \<and> env ''COUCHBASE_PASSWORD'' = Some p \<and>
           filter is_connect (fst (main svc env typed)) = [ClusterNew cs u p] \<and>
           snd (main svc env typed) = Ok ()"
proof -
  from assms obtain cs u p b s c i where
    e: "env ''COUCHBASE_CONNECTION_STRING'' = Some cs" "env ''COUCHBASE_USERNAME'' = Some u"
       "env ''COUCHBASE_PASSWORD'' = Some p" "env ''COUCHBASE_BUCKET'' = Some b"
       "env ''COUCHBASE_SCOPE'' = Some s" "env ''COUCHBASE_COLLECTION'' = Some c"
       "env ''COUCHBASE_SEARCH_INDEX'' = Some i"
    unfolding required_keys_present by blast
  show ?thesis
    using e by (simp add: main_ok [OF e] main_try_connects)
qed

lemma session_step:
  "snd (main svc env typed) = Ok () \<Longrightarrow>
   session env ((svc, typed) # rest) =
     (fst (main svc env typed) @ fst (session env rest), snd (session env rest))"
  by (auto simp: io_seq_def io_bind_def split: prod.splits)

lemma initialize_cluster_Ok:
  "snd (initialize_cluster svc a u p) = Ok cl \<Longrightarrow> cluster_new svc a u p = Inr cl"
  by (simp add: initialize_cluster_eq split: sum.splits option.splits)

lemma rag_invoke_search:
  "VectorSearch cl st v \<in> set (fst (rag_invoke svc chain q)) \<Longrightarrow> cl = chain_cluster chain"
  by (auto simp: rag_invoke_def retriever_invoke_def prompt_invoke_def io_bind_fst io_bind_snd
        call_def io_ret_def io_raise_def split: sum.splits result.splits)

lemma build_rag_chain_cluster:
  "snd (build_rag_chain svc cl b s c i) = Ok chain \<Longrightarrow> chain_cluster chain = cl"
  by (drule build_rag_chain_Ok) simp

lemma main_body_search_handle:
  assumes "VectorSearch cl st v \<in> set (fst (main_body svc cs u p b s c i typed))"
  shows "cluster_new svc cs u p = Inr cl"
proof -
  have ni: "VectorSearch cl st v \<notin> set (fst (initialize_cluster svc cs u p))"
    using initialize_cluster_quiet [of "VectorSearch cl st v" svc cs u p] by auto
  have nb: "\<And>cl'. VectorSearch cl st v \<notin> set (fst (build_rag_chain svc cl' b s c i))"
    using build_rag_chain_quiet [of "VectorSearch cl st v" svc _ b s c i] by auto
  obtain cl' where i: "snd (initialize_cluster svc cs u p) = Ok cl'"
    using assms ni by (cases "snd (initialize_cluster svc cs u p)") (auto simp: main_body_fst)
  obtain chain where bc: "snd (build_rag_chain svc cl' b s c i) = Ok chain"
    using assms ni nb i
    by (cases "snd (build_rag_chain svc cl' b s c i)") (auto simp: main_body_fst)
  have "VectorSearch cl st v \<in> set (fst (rag_invoke svc chain typed))"
    using assms ni nb i bc by (auto simp: main_body_fst split: if_splits result.splits)
  then have "cl = cl'"
    using rag_invoke_search [of cl st v svc chain typed] build_rag_chain_cluster [OF bc]
    by simp
  with i show ?thesis
    by (simp add: initialize_cluster_Ok)
qed

lemma session_nil: "session env [] = ([], Ok ())"
  by (simp add: io_ret_def)

lemma session_connects:
  assumes "\<forall>k \<in> set required_keys. env k \<noteq> None"
  shows "length (filter is_connect (fst (session env runs))) = length runs \<and>
         snd (session env runs) = Ok ()"
proof (induction runs)
  case Nil
  show ?case by (simp add: io_ret_def)
next
  case (Cons r runs)
  obtain svc typed where r: "r = (svc, typed)" by (cases r)
  from main_connects [OF assms, of svc typed]
  obtain cs u p where m: "filter is_connect (fst (main svc env typed)) = [ClusterNew cs u p]"
    "snd (main svc env typed) = Ok ()" by blast
  show ?case
    using Cons.IH m by (simp del: session.simps add: r session_step [OF m(2)])
qed

lemma join_comma_split:
  "join_comma (xs @ d # ys) =
     join_comma xs @ (if xs = [] then [] else '', '') @ d @
     (if ys = [] then [] else '', '') @ join_comma ys"
proof (induction xs rule: join_comma.induct)
  case 1
  show ?case by (cases ys) simp_all
next
  case (2 x)
  show ?case by (cases ys) simp_all
next
  case (3 x y zs)
  then show ?case by simp
qed

lemma main_body_snd_eq:
  "snd (main_body svc cs u p b s coll i typed) =
     (let st = \<lparr>bucket_name = b, scope_name = s, collection_name = coll,
                 embedding_key = ''embedding'', text_key = ''review'', index_name = i\<rparr>;
          llm = \<lparr>temperature = 0, model = ''gpt-4-1106-preview'', streaming = True\<rparr>
      in case cluster_new svc cs u p of
           Inl e \<Rightarrow> Raise e
         | Inr cl \<Rightarrow>
         (case wait_until_ready svc cl 5 of
           Some e \<Rightarrow> Raise e
         | None \<Rightarrow>
         (case embeddings_new svc ''text-embedding-3-small'' of
           Some e \<Rightarrow> Raise e
         | None \<Rightarrow>
         (case vector_store_new svc cl st of
           Some e \<Rightarrow> Raise e
         | None \<Rightarrow>
         (case chat_model_new svc llm of
           Some e \<Rightarrow> Raise e
         | None \<Rightarrow>
         if typed = [] then Ok ()
         else
         (case embed_query svc ''text-embedding-3-small'' typed of
           Inl e \<Rightarrow> Raise e
         | Inr v \<Rightarrow>
         (case similarity_search svc cl st v of
           Inl e \<Rightarrow> Raise e
         | Inr docs \<Rightarrow>
         (case chat_completion svc llm (spec_assemble (str_list (doc_repr svc) docs) typed) of
           Inl e \<Rightarrow> Raise e
         | Inr answer \<Rightarrow> Ok ()))))))))"
  by (simp add: main_body_snd initialize_cluster_eq build_rag_chain_eq rag_invoke_eq Let_def
        split: sum.splits option.splits)




section \<open>Configuration loader\<close>

text \<open>
  Claim C3. For every variable name: when the variable is not set in the process
  environment, \<^verbatim>\<open>get_env_variable\<close> writes one error to the log and the same error to
  the Streamlit page, the message naming the variable between quotes, and then exits
  with status 1; when the variable is set, it returns the value and does nothing else.
\<close>

theorem get_env_variable_contract:
  "(env name = None \<longrightarrow>
      get_env_variable env name =
        ([LogError (''Required environment variable '' @ [CHR 0x27] @ name @ [CHR 0x27]
                     @ '' is missing.''),
          StError (''Required environment variable '' @ [CHR 0x27] @ name @ [CHR 0x27]
                     @ '' is missing.'')],
         SysExit 1)) \<and>
   (\<forall>v. env name = Some v \<longrightarrow> get_env_variable env name = ([], Ok v))"
  by (simp add: get_env_variable_def missing_message_def io_defs Let_def)

theorem get_env_variable_contract_witness:
  "(demo_env(''COUCHBASE_BUCKET'' := None)) ''COUCHBASE_BUCKET'' = None \<and>
   get_env_variable (demo_env(''COUCHBASE_BUCKET'' := None)) ''COUCHBASE_BUCKET'' =
     ([LogError ''Required environment variable 'COUCHBASE_BUCKET' is missing.'',
       StError ''Required environment variable 'COUCHBASE_BUCKET' is missing.''],
      SysExit 1 :: string result) \<and>
   demo_env ''COUCHBASE_BUCKET'' = Some ''travel'' \<and>
   get_env_variable demo_env ''COUCHBASE_BUCKET'' = ([], Ok ''travel'' :: string result)"
  using get_env_variable_contract [of "demo_env(''COUCHBASE_BUCKET'' := None)" "''COUCHBASE_BUCKET''"]
        get_env_variable_contract [of demo_env "''COUCHBASE_BUCKET''"]
  by (simp add: demo_env_def)

text \<open>
  Claim C4. For every required key: when that key is absent from the environment,
  whatever the other keys are, \<^verbatim>\<open>main\<close> ends with exit status 1 and no call to any
  collaborator is among its effects: no connection to the store, no constructor, no
  embedding, no search, no completion. When it is the only absent key, the effects are
  the two page headers and the error naming that key, logged and displayed.
\<close>

theorem missing_key_exits_before_any_call:
  assumes "k \<in> set required_keys" and "env k = None"
  shows "snd (main svc env typed) = SysExit 1 \<and>
         (\<forall>ev \<in> set (fst (main svc env typed)). \<not> is_service_call ev) \<and>
         ((\<forall>k' \<in> set required_keys. k' \<noteq> k \<longrightarrow> env k' \<noteq> None) \<longrightarrow>
            main svc env typed =
              ([StTitle ''Hotel Recommendation System'',
                StWrite ''Ask a question about hotels and get recommendations based on context.'',
                LogError (missing_message k), StError (missing_message k)], SysExit 1))"
proof -
  have "\<not> (\<forall>k \<in> set required_keys. env k \<noteq> None)"
    using assms by blast
  then have no: "\<not> (\<exists>cs u p b s c i.
        env ''COUCHBASE_CONNECTION_STRING'' = Some cs \<and> env ''COUCHBASE_USERNAME'' = Some u \<and>
        env ''COUCHBASE_PASSWORD'' = Some p \<and> env ''COUCHBASE_BUCKET'' = Some b \<and>
        env ''COUCHBASE_SCOPE'' = Some s \<and> env ''COUCHBASE_COLLECTION'' = Some c \<and>
        env ''COUCHBASE_SEARCH_INDEX'' = Some i)"
    unfolding required_keys_present .
  from main_cases [of env svc typed] no
  obtain k0 where k0: "k0 \<in> set required_keys" "env k0 = None"
    and m: "main svc env typed =
        ([StTitle ''Hotel Recommendation System'',
          StWrite ''Ask a question about hotels and get recommendations based on context.'',
          LogError (missing_message k0), StError (missing_message k0)], SysExit 1)"
    by blast
  have "(\<forall>k' \<in> set required_keys. k' \<noteq> k \<longrightarrow> env k' \<noteq> None) \<longrightarrow> k0 = k"
    using k0 by blast
  with m show ?thesis by auto
qed

theorem missing_key_exits_before_any_call_witness:
  "''COUCHBASE_BUCKET'' \<in> set required_keys \<and>
   (demo_env(''COUCHBASE_BUCKET'' := None)) ''COUCHBASE_BUCKET'' = None \<and>
   main demo_svc (demo_env(''COUCHBASE_BUCKET'' := None)) ''What do guests say about the view?'' =
     ([StTitle ''Hotel Recommendation System'',
       StWrite ''Ask a question about hotels and get recommendations based on context.'',
       LogError ''Required environment variable 'COUCHBASE_BUCKET' is missing.'',
       StError ''Required environment variable 'COUCHBASE_BUCKET' is missing.''], SysExit 1)"
  using missing_key_exits_before_any_call
    [of "''COUCHBASE_BUCKET''" "demo_env(''COUCHBASE_BUCKET'' := None)" demo_svc
        "''What do guests say about the view?''"]
  by (simp add: required_keys_def demo_env_def missing_message_def)




section \<open>Store connector and error handling\<close>

text \<open>
  Claim C6, as the specification states it, has every connection failure arise within
  the bounded wait of 5 seconds. The bound is the argument of \<^verbatim>\<open>wait_until_ready\<close> (line
  69), which is called only after \<^verbatim>\<open>Cluster(...)\<close> (line 68) has returned; the module
  passes no bound to \<^verbatim>\<open>Cluster(...)\<close>. When the store is unreachable at that call, the
  failure is raised there: the run has no readiness wait, and the 5 seconds play no part.
\<close>

theorem constructor_failure_has_no_wait_counterexample:
  "initialize_cluster demo_svc_unreachable ''couchbase://localhost'' ''admin'' ''secret'' =
     ([ClusterNew ''couchbase://localhost'' ''admin'' ''secret'',
       LogError ''Error connecting to Couchbase cluster: UnAmbiguousTimeoutException''],
      Raise (CouchbaseException ''UnAmbiguousTimeoutException'')) \<and>
   filter is_wait
     (fst (initialize_cluster demo_svc_unreachable ''couchbase://localhost'' ''admin''
        ''secret'')) = []"
  by (simp add: initialize_cluster_eq demo_svc_unreachable_def demo_svc_def)

text \<open>
  Claim C6, amended. \<^verbatim>\<open>initialize_cluster\<close> has exactly these outcomes. The constructor
  of the handle raises: the effects are that one call (and the error log when the
  exception is a \<^verbatim>\<open>CouchbaseException\<close>), with no wait, and the same exception leaves
  the function. The constructor returns and the readiness wait, bounded by 5 seconds,
  raises: the effects are the one construction, the one wait (and the error log), and
  the same exception leaves the function. Both succeed: the success is logged and the
  handle returned. Nothing is called a second time. Whenever an exception leaves the
  function, the \<^verbatim>\<open>try\<close> statement of \<^verbatim>\<open>main\<close> ends by displaying the error, displaying
  the traceback and logging the exception.
\<close>

theorem initialize_cluster_paths:
  "initialize_cluster svc a u p =
     (case cluster_new svc a u p of
        Inl (CouchbaseException m) \<Rightarrow>
          ([ClusterNew a u p, LogError (''Error connecting to Couchbase cluster: '' @ m)],
           Raise (CouchbaseException m))
      | Inl (OtherException m) \<Rightarrow> ([ClusterNew a u p], Raise (OtherException m))
      | Inr cl \<Rightarrow>
          (case wait_until_ready svc cl 5 of
             None \<Rightarrow>
               ([ClusterNew a u p, WaitUntilReady cl 5,
                 LogInfo ''Successfully connected to Couchbase cluster.''], Ok cl)
           | Some (CouchbaseException m) \<Rightarrow>
               ([ClusterNew a u p, WaitUntilReady cl 5,
                 LogError (''Error connecting to Couchbase cluster: '' @ m)],
                Raise (CouchbaseException m))
           | Some (OtherException m) \<Rightarrow>
               ([ClusterNew a u p, WaitUntilReady cl 5], Raise (OtherException m)))) \<and>
   (\<forall>e. snd (initialize_cluster svc a u p) = Raise e \<longrightarrow>
      main_try svc a u p b s coll i typed =
        (fst (initialize_cluster svc a u p) @
           [StError ''An error occurred while processing your request.'',
            StError (format_exc svc e),
            LogError (''Exception occurred: '' @ exn_str e)], Ok ()))"
proof (intro conjI allI impI)
  show "initialize_cluster svc a u p =
     (case cluster_new svc a u p of
        Inl (CouchbaseException m) \<Rightarrow>
          ([ClusterNew a u p, LogError (''Error connecting to Couchbase cluster: '' @ m)],
           Raise (CouchbaseException m))
      | Inl (OtherException m) \<Rightarrow> ([ClusterNew a u p], Raise (OtherException m))
      | Inr cl \<Rightarrow>
          (case wait_until_ready svc cl 5 of
             None \<Rightarrow>
               ([ClusterNew a u p, WaitUntilReady cl 5,
                 LogInfo ''Successfully connected to Couchbase cluster.''], Ok cl)
           | Some (CouchbaseException m) \<Rightarrow>
               ([ClusterNew a u p, WaitUntilReady cl 5,
                 LogError (''Error connecting to Couchbase cluster: '' @ m)],
                Raise (CouchbaseException m))
           | Some (OtherException m) \<Rightarrow>
               ([ClusterNew a u p, WaitUntilReady cl 5], Raise (OtherException m))))"
    by (simp add: initialize_cluster_eq split: sum.splits option.splits exn.splits)
next
  fix e assume "snd (initialize_cluster svc a u p) = Raise e"
  then show "main_try svc a u p b s coll i typed =
        (fst (initialize_cluster svc a u p) @
           [StError ''An error occurred while processing your request.'',
            StError (format_exc svc e),
            LogError (''Exception occurred: '' @ exn_str e)], Ok ())"
    by (simp add: main_try_eq main_body_fst main_body_snd)
qed

theorem initialize_cluster_paths_witness:
  "initialize_cluster demo_svc ''couchbase://localhost'' ''admin'' ''secret'' =
     ([ClusterNew ''couchbase://localhost'' ''admin'' ''secret'', WaitUntilReady (Cluster 7) 5,
       LogInfo ''Successfully connected to Couchbase cluster.''], Ok (Cluster 7)) \<and>
   initialize_cluster demo_svc_store_down ''couchbase://localhost'' ''admin'' ''secret'' =
     ([ClusterNew ''couchbase://localhost'' ''admin'' ''secret'', WaitUntilReady (Cluster 7) 5,
       LogError ''Error connecting to Couchbase cluster: UnAmbiguousTimeoutException''],
      Raise (CouchbaseException ''UnAmbiguousTimeoutException'')) \<and>
   initialize_cluster demo_svc_unreachable ''couchbase://localhost'' ''admin'' ''secret'' =
     ([ClusterNew ''couchbase://localhost'' ''admin'' ''secret'',
       LogError ''Error connecting to Couchbase cluster: UnAmbiguousTimeoutException''],
      Raise (CouchbaseException ''UnAmbiguousTimeoutException'')) \<and>
   main_try demo_svc_store_down ''couchbase://localhost'' ''admin'' ''secret'' ''travel''
       ''inventory'' ''hotel'' ''reviews'' ''What do guests say about the view?'' =
     ([ClusterNew ''couchbase://localhost'' ''admin'' ''secret'', WaitUntilReady (Cluster 7) 5,
       LogError ''Error connecting to Couchbase cluster: UnAmbiguousTimeoutException'',
       StError ''An error occurred while processing your request.'',
       StError ''Traceback (most recent call last): UnAmbiguousTimeoutException'',
       LogError ''Exception occurred: UnAmbiguousTimeoutException''], Ok ()) \<and>
   main_try demo_svc_unreachable ''couchbase://localhost'' ''admin'' ''secret'' ''travel''
       ''inventory'' ''hotel'' ''reviews'' ''What do guests say about the view?'' =
     ([ClusterNew ''couchbase://localhost'' ''admin'' ''secret'',
       LogError ''Error connecting to Couchbase cluster: UnAmbiguousTimeoutException'',
       StError ''An error occurred while processing your request.'',
       StError ''Traceback (most recent call last): UnAmbiguousTimeoutException'',
       LogError ''Exception occurred: UnAmbiguousTimeoutException''], Ok ())"
proof -
  note t1 = initialize_cluster_paths [of demo_svc "''couchbase://localhost''" "''admin''"
      "''secret''" "''travel''" "''inventory''" "''hotel''" "''reviews''"
      "''What do guests say about the view?''"]
  note t2 = initialize_cluster_paths [of demo_svc_store_down "''couchbase://localhost''"
      "''admin''" "''secret''" "''travel''" "''inventory''" "''hotel''" "''reviews''"
      "''What do guests say about the view?''"]
  note t3 = initialize_cluster_paths [of demo_svc_unreachable "''couchbase://localhost''"
      "''admin''" "''secret''" "''travel''" "''inventory''" "''hotel''" "''reviews''"
      "''What do guests say about the view?''"]
  have a: "initialize_cluster demo_svc ''couchbase://localhost'' ''admin'' ''secret'' =
     ([ClusterNew ''couchbase://localhost'' ''admin'' ''secret'', WaitUntilReady (Cluster 7) 5,
       LogInfo ''Successfully connected to Couchbase cluster.''], Ok (Cluster 7))"
    using t1 [THEN conjunct1] by (simp add: demo_svc_def)
  have b: "initialize_cluster demo_svc_store_down ''couchbase://localhost'' ''admin''
       ''secret'' =
     ([ClusterNew ''couchbase://localhost'' ''admin'' ''secret'', WaitUntilReady (Cluster 7) 5,
       LogError ''Error connecting to Couchbase cluster: UnAmbiguousTimeoutException''],
      Raise (CouchbaseException ''UnAmbiguousTimeoutException''))"
    using t2 [THEN conjunct1] by (simp add: demo_svc_store_down_def demo_svc_def)
  have c: "initialize_cluster demo_svc_unreachable ''couchbase://localhost'' ''admin''
       ''secret'' =
     ([ClusterNew ''couchbase://localhost'' ''admin'' ''secret'',
       LogError ''Error connecting to Couchbase cluster: UnAmbiguousTimeoutException''],
      Raise (CouchbaseException ''UnAmbiguousTimeoutException''))"
    using t3 [THEN conjunct1] by (simp add: demo_svc_unreachable_def demo_svc_def)
  have fb: "format_exc demo_svc_store_down (CouchbaseException ''UnAmbiguousTimeoutException'') =
      ''Traceback (most recent call last): UnAmbiguousTimeoutException''"
    by (simp add: demo_svc_store_down_def demo_svc_def)
  have fc: "format_exc demo_svc_unreachable (CouchbaseException ''UnAmbiguousTimeoutException'') =
      ''Traceback (most recent call last): UnAmbiguousTimeoutException''"
    by (simp add: demo_svc_unreachable_def demo_svc_def)
  have d: "main_try demo_svc_store_down ''couchbase://localhost'' ''admin'' ''secret'' ''travel''
       ''inventory'' ''hotel'' ''reviews'' ''What do guests say about the view?'' =
     ([ClusterNew ''couchbase://localhost'' ''admin'' ''secret'', WaitUntilReady (Cluster 7) 5,
       LogError ''Error connecting to Couchbase cluster: UnAmbiguousTimeoutException'',
       StError ''An error occurred while processing your request.'',
       StError ''Traceback (most recent call last): UnAmbiguousTimeoutException'',
       LogError ''Exception occurred: UnAmbiguousTimeoutException''], Ok ())"
    using t2 [THEN conjunct2, rule_format, of "CouchbaseException ''UnAmbiguousTimeoutException''"]
    by (simp add: b fb)
  have e: "main_try demo_svc_unreachable ''couchbase://localhost'' ''admin'' ''secret'' ''travel''
       ''inventory'' ''hotel'' ''reviews'' ''What do guests say about the view?'' =
     ([ClusterNew ''couchbase://localhost'' ''admin'' ''secret'',
       LogError ''Error connecting to Couchbase cluster: UnAmbiguousTimeoutException'',
       StError ''An error occurred while processing your request.'',
       StError ''Traceback (most recent call last): UnAmbiguousTimeoutException'',
       LogError ''Exception occurred: UnAmbiguousTimeoutException''], Ok ())"
    using t3 [THEN conjunct2, rule_format, of "CouchbaseException ''UnAmbiguousTimeoutException''"]
    by (simp add: c fc)
  from a b c d e show ?thesis by (intro conjI)
qed

text \<open>
  Claim C7. In a run with every key set, the suite of the \<^verbatim>\<open>try\<close> statement ends with
  the exception of the first collaborator that raises, in program order: the
  constructor of the handle, the readiness wait, the three constructors of the chain,
  and, for a non-empty question, the embedding, the search and the completion; that
  exception is passed on as it is, and the suite ends normally only when none raises.
  When the suite ends with an exception \<open>e\<close>: nothing was written to the page by the
  suite (no \<^verbatim>\<open>Response:\<close>, no answer, partial or not); the handler displays the fixed
  message and the traceback of \<open>e\<close> and logs \<open>e\<close>; \<^verbatim>\<open>main\<close> returns normally, and the
  next execution of the session takes place.
\<close>

theorem service_error_surfaces_at_top_level:
  assumes "env ''COUCHBASE_CONNECTION_STRING'' = Some cs" and "env ''COUCHBASE_USERNAME'' = Some u"
    and "env ''COUCHBASE_PASSWORD'' = Some p" and "env ''COUCHBASE_BUCKET'' = Some b"
    and "env ''COUCHBASE_SCOPE'' = Some s" and "env ''COUCHBASE_COLLECTION'' = Some coll"
    and "env ''COUCHBASE_SEARCH_INDEX'' = Some i"
  shows "snd (main_body svc cs u p b s coll i typed) =
     (let st = \<lparr>bucket_name = b, scope_name = s, collection_name = coll,
                 embedding_key = ''embedding'', text_key = ''review'', index_name = i\<rparr>;
          llm = \<lparr>temperature = 0, model = ''gpt-4-1106-preview'', streaming = True\<rparr>
      in case cluster_new svc cs u p of
           Inl e \<Rightarrow> Raise e
         | Inr cl \<Rightarrow>
         (case wait_until_ready svc cl 5 of
           Some e \<Rightarrow> Raise e
         | None \<Rightarrow>
         (case embeddings_new svc ''text-embedding-3-small'' of
           Some e \<Rightarrow> Raise e
         | None \<Rightarrow>
         (case vector_store_new svc cl st of
           Some e \<Rightarrow> Raise e
         | None \<Rightarrow>
         (case chat_model_new svc llm of
           Some e \<Rightarrow> Raise e
         | None \<Rightarrow>
         if typed = [] then Ok ()
         else
         (case embed_query svc ''text-embedding-3-small'' typed of
           Inl e \<Rightarrow> Raise e
         | Inr v \<Rightarrow>
         (case similarity_search svc cl st v of
           Inl e \<Rightarrow> Raise e
         | Inr docs \<Rightarrow>
         (case chat_completion svc llm (spec_assemble (str_list (doc_repr svc) docs) typed) of
           Inl e \<Rightarrow> Raise e
         | Inr answer \<Rightarrow> Ok ())))))))) \<and>
   (\<forall>e. snd (main_body svc cs u p b s coll i typed) = Raise e \<longrightarrow>
      main svc env typed =
        ([StTitle ''Hotel Recommendation System'',
          StWrite ''Ask a question about hotels and get recommendations based on context.'']
         @ fst (main_body svc cs u p b s coll i typed) @
         [StError ''An error occurred while processing your request.'',
          StError (format_exc svc e),
          LogError (''Exception occurred: '' @ exn_str e)], Ok ()) \<and>
      (\<forall>ev \<in> set (fst (main_body svc cs u p b s coll i typed)). \<not> is_display ev) \<and>
      session env ((svc, typed) # rest) =
        (fst (main svc env typed) @ fst (session env rest), snd (session env rest)))"
proof (intro conjI allI impI)
  show "snd (main_body svc cs u p b s coll i typed) =
     (let st = \<lparr>bucket_name = b, scope_name = s, collection_name = coll,
                 embedding_key = ''embedding'', text_key = ''review'', index_name = i\<rparr>;
          llm = \<lparr>temperature = 0, model = ''gpt-4-1106-preview'', streaming = True\<rparr>
      in case cluster_new svc cs u p of
           Inl e \<Rightarrow> Raise e
         | Inr cl \<Rightarrow>
         (case wait_until_ready svc cl 5 of
           Some e \<Rightarrow> Raise e
         | None \<Rightarrow>
         (case embeddings_new svc ''text-embedding-3-small'' of
           Some e \<Rightarrow> Raise e
         | None \<Rightarrow>
         (case vector_store_new svc cl st of
           Some e \<Rightarrow> Raise e
         | None \<Rightarrow>
         (case chat_model_new svc llm of
           Some e \<Rightarrow> Raise e
         | None \<Rightarrow>
         if typed = [] then Ok ()
         else
         (case embed_query svc ''text-embedding-3-small'' typed of
           Inl e \<Rightarrow> Raise e
         | Inr v \<Rightarrow>
         (case similarity_search svc cl st v of
           Inl e \<Rightarrow> Raise e
         | Inr docs \<Rightarrow>
         (case chat_completion svc llm (spec_assemble (str_list (doc_repr svc) docs) typed) of
           Inl e \<Rightarrow> Raise e
         | Inr answer \<Rightarrow> Ok ()))))))))"
    by (rule main_body_snd_eq)
next
  fix e assume r: "snd (main_body svc cs u p b s coll i typed) = Raise e"
  note m = main_ok [OF assms, of svc typed]
  show "main svc env typed =
        ([StTitle ''Hotel Recommendation System'',
          StWrite ''Ask a question about hotels and get recommendations based on context.'']
         @ fst (main_body svc cs u p b s coll i typed) @
         [StError ''An error occurred while processing your request.'',
          StError (format_exc svc e),
          LogError (''Exception occurred: '' @ exn_str e)], Ok ())"
    using r by (simp add: m main_try_fst)
  show "\<forall>ev \<in> set (fst (main_body svc cs u p b s coll i typed)). \<not> is_display ev"
    using main_body_no_display_on_raise [OF r] by blast
  show "session env ((svc, typed) # rest) =
        (fst (main svc env typed) @ fst (session env rest), snd (session env rest))"
    by (rule session_step) (simp add: m)
qed

theorem service_error_surfaces_at_top_level_witness:
  "snd (main_body demo_svc_llm_down ''couchbase://localhost'' ''admin'' ''secret'' ''travel''
          ''inventory'' ''hotel'' ''reviews'' ''What do guests say about the view?'') =
     Raise (OtherException ''RateLimitError'') \<and>
   session demo_env [(demo_svc_llm_down, ''What do guests say about the view?''),
                     (demo_svc, ''What do guests say about the view?'')] =
     (fst (main demo_svc_llm_down demo_env ''What do guests say about the view?'') @
      fst (main demo_svc demo_env ''What do guests say about the view?''), Ok ()) \<and>
   main demo_svc_llm_down demo_env ''What do guests say about the view?'' =
     ([StTitle ''Hotel Recommendation System'',
       StWrite ''Ask a question about hotels and get recommendations based on context.'',
       ClusterNew ''couchbase://localhost'' ''admin'' ''secret'',
       WaitUntilReady (Cluster 7) 5,
       LogInfo ''Successfully connected to Couchbase cluster.'',
       EmbeddingsNew ''text-embedding-3-small'',
       VectorStoreNew (Cluster 7)
         \<lparr>bucket_name = ''travel'', scope_name = ''inventory'', collection_name = ''hotel'',
          embedding_key = ''embedding'', text_key = ''review'', index_name = ''reviews''\<rparr>,
       ChatModelNew \<lparr>temperature = 0, model = ''gpt-4-1106-preview'', streaming = True\<rparr>,
       StTextInput ''Enter your question about hotels:'',
       StSpinner ''Processing your query...'',
       EmbedQuery ''text-embedding-3-small'' ''What do guests say about the view?'',
       VectorSearch (Cluster 7)
         \<lparr>bucket_name = ''travel'', scope_name = ''inventory'', collection_name = ''hotel'',
          embedding_key = ''embedding'', text_key = ''review'', index_name = ''reviews''\<rparr> 34,
       ChatCompletion \<lparr>temperature = 0, model = ''gpt-4-1106-preview'', streaming = True\<rparr>
         (spec_assemble ''[Document(page_content='Great ocean view, friendly staff')]''
            ''What do guests say about the view?''),
       StError ''An error occurred while processing your request.'',
       StError ''Traceback (most recent call last): RateLimitError'',
       LogError ''Exception occurred: RateLimitError''], Ok ())"
proof -
  have e: "demo_env ''COUCHBASE_CONNECTION_STRING'' = Some ''couchbase://localhost''"
    "demo_env ''COUCHBASE_USERNAME'' = Some ''admin''"
    "demo_env ''COUCHBASE_PASSWORD'' = Some ''secret''"
    "demo_env ''COUCHBASE_BUCKET'' = Some ''travel''"
    "demo_env ''COUCHBASE_SCOPE'' = Some ''inventory''"
    "demo_env ''COUCHBASE_COLLECTION'' = Some ''hotel''"
    "demo_env ''COUCHBASE_SEARCH_INDEX'' = Some ''reviews''"
    by (simp_all add: demo_env_def)
  note t = service_error_surfaces_at_top_level [OF e, of demo_svc_llm_down
      "''What do guests say about the view?''"
      "[(demo_svc, ''What do guests say about the view?'')]"]
  have r: "snd (main_body demo_svc_llm_down ''couchbase://localhost'' ''admin'' ''secret''
          ''travel'' ''inventory'' ''hotel'' ''reviews'' ''What do guests say about the view?'') =
     Raise (OtherException ''RateLimitError'')"
    using t [THEN conjunct1] by (simp add: demo_svc_llm_down_def demo_svc_def Let_def)
  have f: "fst (main_body demo_svc_llm_down ''couchbase://localhost'' ''admin'' ''secret''
          ''travel'' ''inventory'' ''hotel'' ''reviews'' ''What do guests say about the view?'') =
      [ClusterNew ''couchbase://localhost'' ''admin'' ''secret'',
       WaitUntilReady (Cluster 7) 5,
       LogInfo ''Successfully connected to Couchbase cluster.'',
       EmbeddingsNew ''text-embedding-3-small'',
       VectorStoreNew (Cluster 7)
         \<lparr>bucket_name = ''travel'', scope_name = ''inventory'', collection_name = ''hotel'',
          embedding_key = ''embedding'', text_key = ''review'', index_name = ''reviews''\<rparr>,
       ChatModelNew \<lparr>temperature = 0, model = ''gpt-4-1106-preview'', streaming = True\<rparr>,
       StTextInput ''Enter your question about hotels:'',
       StSpinner ''Processing your query...'',
       EmbedQuery ''text-embedding-3-small'' ''What do guests say about the view?'',
       VectorSearch (Cluster 7)
         \<lparr>bucket_name = ''travel'', scope_name = ''inventory'', collection_name = ''hotel'',
          embedding_key = ''embedding'', text_key = ''review'', index_name = ''reviews''\<rparr> 34,
       ChatCompletion \<lparr>temperature = 0, model = ''gpt-4-1106-preview'', streaming = True\<rparr>
         (spec_assemble ''[Document(page_content='Great ocean view, friendly staff')]''
            ''What do guests say about the view?'')]"
    by (simp add: main_body_fst main_body_snd initialize_cluster_eq build_rag_chain_eq
          rag_invoke_eq Let_def demo_svc_llm_down_def demo_svc_def str_list_def)
  have s2: "session demo_env [(demo_svc, ''What do guests say about the view?'')] =
      (fst (main demo_svc demo_env ''What do guests say about the view?''), Ok ())"
    using main_ok [OF e, of demo_svc "''What do guests say about the view?''"]
    by (simp add: io_seq_def io_bind_def io_ret_def)
  have fe: "format_exc demo_svc_llm_down (OtherException ''RateLimitError'') =
      ''Traceback (most recent call last): RateLimitError''"
    by (simp add: demo_svc_llm_down_def demo_svc_def)
  note t2 = t [THEN conjunct2, rule_format, OF r]
  note t_main = t2 [THEN conjunct1]
  note t_session = t2 [THEN conjunct2, THEN conjunct2]
  show ?thesis
    using r t_main t_session by (simp del: session.simps add: f fe s2)
qed

section \<open>The connection handle\<close>

text \<open>
  Claim C9, as the specification states it, has one handle per process, created once
  and used again by every later query. In the source the handle is a local variable of
  \<^verbatim>\<open>main\<close>, created by the call of \<^verbatim>\<open>initialize_cluster\<close> at line 151, and \<^verbatim>\<open>main\<close>
  answers at most one question: a process that answers two questions has executed
  \<^verbatim>\<open>main\<close> twice and connected twice.
\<close>

theorem connection_per_run_counterexample:
  "filter is_connect
     (fst (session demo_env [(demo_svc, ''What do guests say about the view?''),
                             (demo_svc, ''Is breakfast included?'')])) =
   [ClusterNew ''couchbase://localhost'' ''admin'' ''secret'',
    ClusterNew ''couchbase://localhost'' ''admin'' ''secret'']"
proof -
  have e: "demo_env ''COUCHBASE_CONNECTION_STRING'' = Some ''couchbase://localhost''"
    "demo_env ''COUCHBASE_USERNAME'' = Some ''admin''"
    "demo_env ''COUCHBASE_PASSWORD'' = Some ''secret''"
    "demo_env ''COUCHBASE_BUCKET'' = Some ''travel''"
    "demo_env ''COUCHBASE_SCOPE'' = Some ''inventory''"
    "demo_env ''COUCHBASE_COLLECTION'' = Some ''hotel''"
    "demo_env ''COUCHBASE_SEARCH_INDEX'' = Some ''reviews''"
    by (simp_all add: demo_env_def)
  have m: "\<And>q. filter is_connect (fst (main demo_svc demo_env q)) =
      [ClusterNew ''couchbase://localhost'' ''admin'' ''secret'']"
    "\<And>q. snd (main demo_svc demo_env q) = Ok ()"
    by (simp_all add: main_ok [OF e] main_try_connects)
  show ?thesis
    by (simp del: session.simps add: session_step [OF m(2)] m(1) session_nil)
qed

text \<open>
  Claim C9, amended. In one execution of \<^verbatim>\<open>main\<close> with every key set, the connection
  is opened exactly once, as the first call to a collaborator, before the question is
  read; every search of that execution is made on the handle that this connection
  returned. The module has no call that closes a handle (no event of the model stands
  for one). Over a session, the number of connections opened is the number of
  executions: the handle is created again for each question.
\<close>

theorem one_connection_per_run:
  assumes "\<forall>k \<in> set required_keys. env k \<noteq> None"
  shows "(\<exists>a u p es.
            fst (main svc env typed) =
              [StTitle ''Hotel Recommendation System'',
               StWrite ''Ask a question about hotels and get recommendations based on context.'',
               ClusterNew a u p] @ es \<and>
            (\<forall>ev \<in> set es. \<not> is_connect ev) \<and>
            (\<forall>cl st v. VectorSearch cl st v \<in> set es \<longrightarrow> cluster_new svc a u p = Inr cl)) \<and>
         length (filter is_connect (fst (session env runs))) = length runs"
proof -
  from assms obtain cs u p b s c i where
    e: "env ''COUCHBASE_CONNECTION_STRING'' = Some cs" "env ''COUCHBASE_USERNAME'' = Some u"
       "env ''COUCHBASE_PASSWORD'' = Some p" "env ''COUCHBASE_BUCKET'' = Some b"
       "env ''COUCHBASE_SCOPE'' = Some s" "env ''COUCHBASE_COLLECTION'' = Some c"
       "env ''COUCHBASE_SEARCH_INDEX'' = Some i"
    unfolding required_keys_present by blast
  obtain es where b: "fst (main_body svc cs u p b s c i typed) = ClusterNew cs u p # es"
    using main_body_head by blast
  let ?h = "case snd (main_body svc cs u p b s c i typed) of
        Raise e \<Rightarrow> [StError ''An error occurred while processing your request.'',
                    StError (format_exc svc e),
                    LogError (''Exception occurred: '' @ exn_str e)]
      | _ \<Rightarrow> []"
  have hq: "\<forall>ev \<in> set ?h. \<not> is_connect ev \<and> \<not> is_pipeline_call ev"
    by (auto split: result.splits)
  have t: "fst (main_try svc cs u p b s c i typed) = ClusterNew cs u p # es @ ?h"
    by (simp add: main_try_fst b)
  have m: "fst (main svc env typed) =
      [StTitle ''Hotel Recommendation System'',
       StWrite ''Ask a question about hotels and get recommendations based on context.'',
       ClusterNew cs u p] @ (es @ ?h)"
    by (simp add: main_ok [OF e] t)
  have "filter is_connect (ClusterNew cs u p # es) = [ClusterNew cs u p]"
    using main_body_connects [of svc cs u p b s c i typed] by (simp add: b)
  then have c1: "\<forall>ev \<in> set es. \<not> is_connect ev"
    by (simp add: filter_empty_conv)
  have c2: "\<forall>cl st v. VectorSearch cl st v \<in> set (es @ ?h) \<longrightarrow> cluster_new svc cs u p = Inr cl"
  proof (intro allI impI)
    fix cl st v assume "VectorSearch cl st v \<in> set (es @ ?h)"
    with hq have "VectorSearch cl st v \<in> set es" by auto
    then have "VectorSearch cl st v \<in> set (fst (main_body svc cs u p b s c i typed))"
      by (simp add: b)
    then show "cluster_new svc cs u p = Inr cl" by (rule main_body_search_handle)
  qed
  from c1 hq have c1': "\<forall>ev \<in> set (es @ ?h). \<not> is_connect ev" by auto
  from m c1' c2 session_connects [OF assms, of runs] show ?thesis by blast
qed

theorem one_connection_per_run_witness:
  "demo_env ''COUCHBASE_CONNECTION_STRING'' = Some ''couchbase://localhost'' \<and>
   demo_env ''COUCHBASE_USERNAME'' = Some ''admin'' \<and>
   demo_env ''COUCHBASE_PASSWORD'' = Some ''secret'' \<and>
   demo_env ''COUCHBASE_BUCKET'' = Some ''travel'' \<and>
   demo_env ''COUCHBASE_SCOPE'' = Some ''inventory'' \<and>
   demo_env ''COUCHBASE_COLLECTION'' = Some ''hotel'' \<and>
   demo_env ''COUCHBASE_SEARCH_INDEX'' = Some ''reviews'' \<and>
   length (filter is_connect
     (fst (session demo_env [(demo_svc, []), (demo_svc, ''What do guests say about the view?''),
                             (demo_svc_llm_down, ''Is breakfast included?'')]))) = 3"
  using one_connection_per_run [of demo_env demo_svc "[]"
     "[(demo_svc, []), (demo_svc, ''What do guests say about the view?''),
       (demo_svc_llm_down, ''Is breakfast included?'')]"]
  by (simp del: session.simps add: required_keys_def demo_env_def)


section \<open>The empty question\<close>

text \<open>
  Claim C10. When the input box is empty, no run of \<^verbatim>\<open>main\<close> embeds, searches or
  completes, and the only text it writes to the page is the introductory line: no
  \<^verbatim>\<open>Response:\<close> and no answer. When the input box is not empty, every key is set, the
  connection succeeds and the chain is built, the question is embedded, so the chain
  runs.
\<close>

theorem empty_question_skips_pipeline:
  "(\<forall>ev \<in> set (fst (main svc env [])).
      \<not> is_pipeline_call ev \<and>
      (is_display ev \<longrightarrow>
         ev = StWrite ''Ask a question about hotels and get recommendations based on context.'')) \<and>
   (\<forall>cs u p b s coll i cl chain.
      env ''COUCHBASE_CONNECTION_STRING'' = Some cs \<longrightarrow> env ''COUCHBASE_USERNAME'' = Some u \<longrightarrow>
      env ''COUCHBASE_PASSWORD'' = Some p \<longrightarrow> env ''COUCHBASE_BUCKET'' = Some b \<longrightarrow>
      env ''COUCHBASE_SCOPE'' = Some s \<longrightarrow> env ''COUCHBASE_COLLECTION'' = Some coll \<longrightarrow>
      env ''COUCHBASE_SEARCH_INDEX'' = Some i \<longrightarrow>
      snd (initialize_cluster svc cs u p) = Ok cl \<longrightarrow>
      snd (build_rag_chain svc cl b s coll i) = Ok chain \<longrightarrow>
      typed \<noteq> [] \<longrightarrow>
      EmbedQuery ''text-embedding-3-small'' typed \<in> set (fst (main svc env typed)))"
proof (intro conjI allI impI ballI)
  fix ev assume ev: "ev \<in> set (fst (main svc env []))"
  have body: "\<And>cs u p b s c i ev. ev \<in> set (fst (main_try svc cs u p b s c i [])) \<Longrightarrow>
      \<not> is_pipeline_call ev \<and> \<not> is_display ev"
    using main_body_empty_question
    by (fastforce simp: main_try_fst split: result.splits)
  from main_cases [of env svc "[]"] ev body
  show "\<not> is_pipeline_call ev" by auto
  assume "is_display ev"
  with main_cases [of env svc "[]"] ev body
  show "ev = StWrite ''Ask a question about hotels and get recommendations based on context.''"
    by auto
next
  fix cs u p b s coll i cl chain
  assume e: "env ''COUCHBASE_CONNECTION_STRING'' = Some cs" "env ''COUCHBASE_USERNAME'' = Some u"
    "env ''COUCHBASE_PASSWORD'' = Some p" "env ''COUCHBASE_BUCKET'' = Some b"
    "env ''COUCHBASE_SCOPE'' = Some s" "env ''COUCHBASE_COLLECTION'' = Some coll"
    "env ''COUCHBASE_SEARCH_INDEX'' = Some i"
    and i: "snd (initialize_cluster svc cs u p) = Ok cl"
    and b: "snd (build_rag_chain svc cl b s coll i) = Ok chain"
    and t: "typed \<noteq> []"
  have "chain_embeddings chain = ''text-embedding-3-small''"
    using build_rag_chain_Ok [OF b] by simp
  then have "\<exists>es. fst (rag_invoke svc chain typed) = EmbedQuery ''text-embedding-3-small'' typed # es"
    by (simp add: rag_invoke_def retriever_invoke_def io_bind_fst call_def)
  then show "EmbedQuery ''text-embedding-3-small'' typed \<in> set (fst (main svc env typed))"
    using i b t by (auto simp: main_ok [OF e] main_try_fst main_body_fst)
qed

theorem empty_question_skips_pipeline_witness:
  "main demo_svc demo_env [] =
     ([StTitle ''Hotel Recommendation System'',
       StWrite ''Ask a question about hotels and get recommendations based on context.'',
       ClusterNew ''couchbase://localhost'' ''admin'' ''secret'',
       WaitUntilReady (Cluster 7) 5,
       LogInfo ''Successfully connected to Couchbase cluster.'',
       EmbeddingsNew ''text-embedding-3-small'',
       VectorStoreNew (Cluster 7)
         \<lparr>bucket_name = ''travel'', scope_name = ''inventory'', collection_name = ''hotel'',
          embedding_key = ''embedding'', text_key = ''review'', index_name = ''reviews''\<rparr>,
       ChatModelNew \<lparr>temperature = 0, model = ''gpt-4-1106-preview'', streaming = True\<rparr>,
       StTextInput ''Enter your question about hotels:''], Ok ()) \<and>
   EmbedQuery ''text-embedding-3-small'' ''What do guests say about the view?''
     \<in> set (fst (main demo_svc demo_env ''What do guests say about the view?''))"
proof -
  have e: "demo_env ''COUCHBASE_CONNECTION_STRING'' = Some ''couchbase://localhost''"
    "demo_env ''COUCHBASE_USERNAME'' = Some ''admin''"
    "demo_env ''COUCHBASE_PASSWORD'' = Some ''secret''"
    "demo_env ''COUCHBASE_BUCKET'' = Some ''travel''"
    "demo_env ''COUCHBASE_SCOPE'' = Some ''inventory''"
    "demo_env ''COUCHBASE_COLLECTION'' = Some ''hotel''"
    "demo_env ''COUCHBASE_SEARCH_INDEX'' = Some ''reviews''"
    by (simp_all add: demo_env_def)
  have i: "snd (initialize_cluster demo_svc ''couchbase://localhost'' ''admin'' ''secret'') =
      Ok (Cluster 7)"
    by (simp add: initialize_cluster_eq demo_svc_def)
  have b: "snd (build_rag_chain demo_svc (Cluster 7) ''travel'' ''inventory'' ''hotel''
      ''reviews'') = Ok demo_chain"
    by (simp add: build_rag_chain_eq demo_svc_def demo_chain_def Let_def)
  have t: "''What do guests say about the view?'' \<noteq> []" by simp
  note th = empty_question_skips_pipeline [of demo_svc demo_env
      "''What do guests say about the view?''"]
  from th [THEN conjunct2, rule_format, OF e i b t]
  have q: "EmbedQuery ''text-embedding-3-small'' ''What do guests say about the view?''
     \<in> set (fst (main demo_svc demo_env ''What do guests say about the view?''))" .
  have m: "main demo_svc demo_env [] =
     ([StTitle ''Hotel Recommendation System'',
       StWrite ''Ask a question about hotels and get recommendations based on context.'',
       ClusterNew ''couchbase://localhost'' ''admin'' ''secret'',
       WaitUntilReady (Cluster 7) 5,
       LogInfo ''Successfully connected to Couchbase cluster.'',
       EmbeddingsNew ''text-embedding-3-small'',
       VectorStoreNew (Cluster 7)
         \<lparr>bucket_name = ''travel'', scope_name = ''inventory'', collection_name = ''hotel'',
          embedding_key = ''embedding'', text_key = ''review'', index_name = ''reviews''\<rparr>,
       ChatModelNew \<lparr>temperature = 0, model = ''gpt-4-1106-preview'', streaming = True\<rparr>,
       StTextInput ''Enter your question about hotels:''], Ok ())"
    by (simp add: main_ok [OF e] run_simps demo_svc_def)
  from m q show ?thesis by blast
qed


section \<open>The pipeline\<close>

text \<open>
  Claim C1. For the chain that \<^verbatim>\<open>build_rag_chain\<close> returns and every question,
  \<open>rag_invoke\<close> is one fixed sequence: embed the question, search the store with the
  vector, fill the template with the retrieved list and the question, send the result
  to the completion service and return its answer. The only other outcomes are the
  exception of the step that failed, with no later step taken. The result is a function
  of the collaborators, the chain and the question alone: nothing is kept from one call
  to the next.
\<close>

theorem rag_invoke_is_linear:
  assumes "snd (build_rag_chain svc cl b s coll i) = Ok chain"
  shows "rag_invoke svc chain question =
     (case embed_query svc ''text-embedding-3-small'' question of
        Inl e \<Rightarrow> ([EmbedQuery ''text-embedding-3-small'' question], Raise e)
      | Inr v \<Rightarrow>
          (case similarity_search svc cl (chain_store chain) v of
             Inl e \<Rightarrow> ([EmbedQuery ''text-embedding-3-small'' question,
                        VectorSearch cl (chain_store chain) v], Raise e)
           | Inr docs \<Rightarrow>
               (case chat_completion svc (chain_llm chain)
                       (spec_assemble (str_list (doc_repr svc) docs) question) of
                  Inl e \<Rightarrow>
                    ([EmbedQuery ''text-embedding-3-small'' question,
                      VectorSearch cl (chain_store chain) v,
                      ChatCompletion (chain_llm chain)
                        (spec_assemble (str_list (doc_repr svc) docs) question)], Raise e)
                | Inr answer \<Rightarrow>
                    ([EmbedQuery ''text-embedding-3-small'' question,
                      VectorSearch cl (chain_store chain) v,
                      ChatCompletion (chain_llm chain)
                        (spec_assemble (str_list (doc_repr svc) docs) question)], Ok answer))))"
proof -
  have c: "chain_template chain = template" "chain_cluster chain = cl"
    "chain_embeddings chain = ''text-embedding-3-small''"
    using build_rag_chain_Ok [OF assms] by simp_all
  show ?thesis
    by (simp add: rag_invoke_eq [OF c(1)] c split: sum.splits)
qed

theorem rag_invoke_is_linear_witness:
  "snd (build_rag_chain demo_svc (Cluster 7) ''travel'' ''inventory'' ''hotel'' ''reviews'') =
     Ok demo_chain \<and>
   rag_invoke demo_svc demo_chain ''What do guests say about the view?'' =
     ([EmbedQuery ''text-embedding-3-small'' ''What do guests say about the view?'',
       VectorSearch (Cluster 7)
         \<lparr>bucket_name = ''travel'', scope_name = ''inventory'', collection_name = ''hotel'',
          embedding_key = ''embedding'', text_key = ''review'', index_name = ''reviews''\<rparr> 34,
       ChatCompletion \<lparr>temperature = 0, model = ''gpt-4-1106-preview'', streaming = True\<rparr>
         (spec_assemble ''[Document(page_content='Great ocean view, friendly staff')]''
            ''What do guests say about the view?'')],
      Ok ''Guests praise the view.'')"
proof -
  have b: "snd (build_rag_chain demo_svc (Cluster 7) ''travel'' ''inventory'' ''hotel''
      ''reviews'') = Ok demo_chain"
    by (simp add: build_rag_chain_eq demo_svc_def demo_chain_def Let_def)
  show ?thesis
    using b rag_invoke_is_linear [OF b, of "''What do guests say about the view?''"]
    by (simp add: demo_svc_def demo_chain_def str_list_def)
qed

text \<open>
  Claim C2, as the specification states it, has an empty context section for an empty
  list of snippets. The chain passes the retriever's list itself to the template
  (\<^verbatim>\<open>{"context": retriever, ...} | prompt\<close>), and formatting renders a Python list with
  its brackets: the context section of the empty list is \<^verbatim>\<open>[]\<close>.
\<close>

theorem prompt_empty_context_counterexample:
  "snd (build_rag_chain demo_svc (Cluster 7) ''travel'' ''inventory'' ''hotel'' ''reviews'') =
     Ok demo_chain \<and>
   prompt_invoke demo_svc demo_chain [] ''What do guests say about the view?'' =
     ([], Ok (''You are a helpful bot. If you cannot answer based on the context provided, '' @
              ''respond with a generic answer. Answer the question as truthfully as possible '' @
              ''using the context below:\<newline>\<newline>[]\<newline>\<newline>'' @
              ''Question: What do guests say about the view?'')) \<and>
   prompt_invoke demo_svc demo_chain [] ''What do guests say about the view?'' \<noteq>
     ([], Ok (spec_assemble [] ''What do guests say about the view?''))"
  by (simp add: build_rag_chain_eq demo_svc_def Let_def prompt_invoke_template
        demo_chain_def str_list_def spec_assemble_def)

text \<open>
  Claim C2, amended. Prompt assembly has no effect and is a function of the retrieved
  list and the question: the fixed template with the context block and the question
  substituted, where the context block is Python's rendering of the list. For the empty
  list the prompt is still produced, the template intact, with \<^verbatim>\<open>[]\<close> as its context
  section.
\<close>

theorem prompt_assembly_fills_template:
  assumes "snd (build_rag_chain svc cl b s coll i) = Ok chain"
  shows "prompt_invoke svc chain docs question =
           ([], Ok (spec_assemble (str_list (doc_repr svc) docs) question)) \<and>
         prompt_invoke svc chain [] question = ([], Ok (spec_assemble ''[]'' question))"
proof -
  have c: "chain_template chain = template"
    using build_rag_chain_Ok [OF assms] by simp
  show ?thesis
    by (simp add: prompt_invoke_template [OF c] str_list_def)
qed

theorem prompt_assembly_fills_template_witness:
  "snd (build_rag_chain demo_svc (Cluster 7) ''travel'' ''inventory'' ''hotel'' ''reviews'') =
     Ok demo_chain \<and>
   prompt_invoke demo_svc demo_chain
       [\<lparr>page_content = ''Great ocean view, friendly staff'', metadata = []\<rparr>,
        \<lparr>page_content = ''Noisy at night'', metadata = []\<rparr>]
       ''What do guests say about the view?'' =
     ([], Ok (''You are a helpful bot. If you cannot answer based on the context provided, '' @
              ''respond with a generic answer. Answer the question as truthfully as possible '' @
              ''using the context below:\<newline>\<newline>'' @
              ''[Document(page_content='Great ocean view, friendly staff'), '' @
              ''Document(page_content='Noisy at night')]'' @
              ''\<newline>\<newline>Question: What do guests say about the view?''))"
proof -
  have b: "snd (build_rag_chain demo_svc (Cluster 7) ''travel'' ''inventory'' ''hotel''
      ''reviews'') = Ok demo_chain"
    by (simp add: build_rag_chain_eq demo_svc_def demo_chain_def Let_def)
  show ?thesis
    using b prompt_assembly_fills_template [OF b,
      of "[\<lparr>page_content = ''Great ocean view, friendly staff'', metadata = []\<rparr>,
           \<lparr>page_content = ''Noisy at night'', metadata = []\<rparr>]"
         "''What do guests say about the view?''"]
    by (simp add: demo_svc_def str_list_def spec_assemble_def)
qed

text \<open>
  Claim C8. For the chain that \<^verbatim>\<open>build_rag_chain\<close> returns, when the embedding and the
  search succeed: the retriever step returns the very list the store answered (same
  elements, same order, none removed or added); the prompt sent to the completion
  service is the template filled with the rendering of that list; and in that rendering
  every element of the list stands at its own place, after the elements before it and
  before the elements after it, separated from them by a comma and a space. The
  retriever itself is the library's; the module adds no step between the store's answer
  and the prompt.
\<close>

theorem retrieved_list_reaches_prompt_in_order:
  assumes "snd (build_rag_chain svc cl b s coll i) = Ok chain"
    and "embed_query svc ''text-embedding-3-small'' query = Inr v"
    and "similarity_search svc cl (chain_store chain) v = Inr docs"
  shows "retriever_invoke svc chain query =
           ([EmbedQuery ''text-embedding-3-small'' query,
             VectorSearch cl (chain_store chain) v], Ok docs) \<and>
         fst (rag_invoke svc chain query) =
           [EmbedQuery ''text-embedding-3-small'' query,
            VectorSearch cl (chain_store chain) v,
            ChatCompletion (chain_llm chain)
              (spec_assemble (''['' @ join_comma (map (doc_repr svc) docs) @ '']'') query)] \<and>
         (\<forall>xs d ys. docs = xs @ d # ys \<longrightarrow>
            join_comma (map (doc_repr svc) docs) =
              join_comma (map (doc_repr svc) xs) @ (if xs = [] then [] else '', '') @
              doc_repr svc d @
              (if ys = [] then [] else '', '') @ join_comma (map (doc_repr svc) ys))"
proof -
  have c: "chain_template chain = template" "chain_cluster chain = cl"
    "chain_embeddings chain = ''text-embedding-3-small''"
    using build_rag_chain_Ok [OF assms(1)] by simp_all
  have "retriever_invoke svc chain query =
           ([EmbedQuery ''text-embedding-3-small'' query,
             VectorSearch cl (chain_store chain) v], Ok docs)"
    using assms(2,3) by (simp add: retriever_invoke_def call_def io_bind_def c)
  moreover have "fst (rag_invoke svc chain query) =
           [EmbedQuery ''text-embedding-3-small'' query,
            VectorSearch cl (chain_store chain) v,
            ChatCompletion (chain_llm chain)
              (spec_assemble (''['' @ join_comma (map (doc_repr svc) docs) @ '']'') query)]"
    using assms(2,3) by (simp add: rag_invoke_eq [OF c(1)] c str_list_def)
  moreover have "\<forall>xs d ys. docs = xs @ d # ys \<longrightarrow>
            join_comma (map (doc_repr svc) docs) =
              join_comma (map (doc_repr svc) xs) @ (if xs = [] then [] else '', '') @
              doc_repr svc d @
              (if ys = [] then [] else '', '') @ join_comma (map (doc_repr svc) ys)"
    using join_comma_split [of "map (doc_repr svc) _" "doc_repr svc _" "map (doc_repr svc) _"]
    by auto
  ultimately show ?thesis by (intro conjI)
qed

theorem retrieved_list_reaches_prompt_in_order_witness:
  "snd (build_rag_chain demo_svc_three (Cluster 7) ''travel'' ''inventory'' ''hotel''
      ''reviews'') = Ok demo_chain \<and>
   embed_query demo_svc_three ''text-embedding-3-small''
      ''What do guests say about the view?'' = Inr 34 \<and>
   similarity_search demo_svc_three (Cluster 7) (chain_store demo_chain) 34 =
     Inr [\<lparr>page_content = ''Noisy at night'', metadata = []\<rparr>,
          \<lparr>page_content = ''Great ocean view, friendly staff'', metadata = []\<rparr>,
          \<lparr>page_content = ''Noisy at night'', metadata = []\<rparr>] \<and>
   snd (retriever_invoke demo_svc_three demo_chain ''What do guests say about the view?'') =
     Ok [\<lparr>page_content = ''Noisy at night'', metadata = []\<rparr>,
         \<lparr>page_content = ''Great ocean view, friendly staff'', metadata = []\<rparr>,
         \<lparr>page_content = ''Noisy at night'', metadata = []\<rparr>] \<and>
   fst (rag_invoke demo_svc_three demo_chain ''What do guests say about the view?'') =
     [EmbedQuery ''text-embedding-3-small'' ''What do guests say about the view?'',
      VectorSearch (Cluster 7)
        \<lparr>bucket_name = ''travel'', scope_name = ''inventory'', collection_name = ''hotel'',
         embedding_key = ''embedding'', text_key = ''review'', index_name = ''reviews''\<rparr> 34,
      ChatCompletion \<lparr>temperature = 0, model = ''gpt-4-1106-preview'', streaming = True\<rparr>
        (spec_assemble
           (''[Document(page_content='Noisy at night'), '' @
            ''Document(page_content='Great ocean view, friendly staff'), '' @
            ''Document(page_content='Noisy at night')]'')
           ''What do guests say about the view?'')]"
proof -
  have b: "snd (build_rag_chain demo_svc_three (Cluster 7) ''travel'' ''inventory'' ''hotel''
      ''reviews'') = Ok demo_chain"
    by (simp add: build_rag_chain_eq demo_svc_three_def demo_svc_def demo_chain_def Let_def)
  have q: "embed_query demo_svc_three ''text-embedding-3-small''
      ''What do guests say about the view?'' = Inr 34"
    by (simp add: demo_svc_three_def demo_svc_def)
  have r: "similarity_search demo_svc_three (Cluster 7) (chain_store demo_chain) 34 =
     Inr [\<lparr>page_content = ''Noisy at night'', metadata = []\<rparr>,
          \<lparr>page_content = ''Great ocean view, friendly staff'', metadata = []\<rparr>,
          \<lparr>page_content = ''Noisy at night'', metadata = []\<rparr>]"
    by (simp add: demo_svc_three_def demo_svc_def)
  have st: "chain_store demo_chain =
      \<lparr>bucket_name = ''travel'', scope_name = ''inventory'', collection_name = ''hotel'',
       embedding_key = ''embedding'', text_key = ''review'', index_name = ''reviews''\<rparr>"
    "chain_llm demo_chain =
      \<lparr>temperature = 0, model = ''gpt-4-1106-preview'', streaming = True\<rparr>"
    by (simp_all add: demo_chain_def)
  have d: "doc_repr demo_svc_three =
      (\<lambda>d. ''Document(page_content='' @ [CHR 0x27] @ page_content d @ [CHR 0x27] @ '')'')"
    by (simp add: demo_svc_three_def demo_svc_def)
  note t = retrieved_list_reaches_prompt_in_order [OF b q r]
  from t [THEN conjunct1] have t1:
    "snd (retriever_invoke demo_svc_three demo_chain ''What do guests say about the view?'') =
     Ok [\<lparr>page_content = ''Noisy at night'', metadata = []\<rparr>,
         \<lparr>page_content = ''Great ocean view, friendly staff'', metadata = []\<rparr>,
         \<lparr>page_content = ''Noisy at night'', metadata = []\<rparr>]"
    by simp
  from t [THEN conjunct2, THEN conjunct1] have t2:
    "fst (rag_invoke demo_svc_three demo_chain ''What do guests say about the view?'') =
     [EmbedQuery ''text-embedding-3-small'' ''What do guests say about the view?'',
      VectorSearch (Cluster 7)
        \<lparr>bucket_name = ''travel'', scope_name = ''inventory'', collection_name = ''hotel'',
         embedding_key = ''embedding'', text_key = ''review'', index_name = ''reviews''\<rparr> 34,
      ChatCompletion \<lparr>temperature = 0, model = ''gpt-4-1106-preview'', streaming = True\<rparr>
        (spec_assemble
           (''[Document(page_content='Noisy at night'), '' @
            ''Document(page_content='Great ocean view, friendly staff'), '' @
            ''Document(page_content='Noisy at night')]'')
           ''What do guests say about the view?'')]"
    by (simp add: st d)
  from b q r t1 t2 show ?thesis by (intro conjI)
qed


end
